theory Spec2Isabelle
  imports Main
begin

section \<open>sora-cli: the job controller of \<open>main.go\<close>\<close>

text \<open>
  The program is the command-line controller in \<open>main.go\<close>: it validates its flags,
  optionally resolves a remix reference through the history file, submits one job,
  polls it, downloads the result and records a history entry. The repository also
  holds a later revision of the controller, after the module declaration in \<open>go.mod\<close>
  (it refuses a remix together with size, model or duration flags, sends a remix as a
  request of its own, resizes images and saves to \<open><id>.mp4\<close> by default); what is
  modelled and verified here is \<open>main.go\<close>.

  Go strings are byte sequences, so they are \<^typ>\<open>string\<close> (lists of 8-bit characters).
  Every call that leaves the process (the file system, the environment, the remote
  service, the clock) is answered by a field of the record \<open>world\<close> defined below, and
  everything the process emits is appended to fields of the same record; each source
  function becomes a function from a world to a result and a new world.

  The standard-library functions \<open>strings.ToLower\<close>, \<open>strings.TrimSpace\<close> and
  \<open>fmt.Sscanf\<close> are written out for ASCII input; on bytes above 127 Go decodes UTF-8
  runes and also folds or skips a few non-ASCII letters and spaces, which the
  definitions here leave unchanged, so a statement that a string is in none of the
  vocabularies is made for ASCII strings (\<open>isASCII\<close>). Go's \<open>int\<close> is the 64-bit integer
  of the common platforms. The history file is kept apart from the other files.
\<close>

subsection \<open>Strings\<close>

definition isASCII :: "string \<Rightarrow> bool" where
  "isASCII s = list_all (\<lambda>c. (of_char c :: nat) < 128) s"

definition HasPrefix :: "string \<Rightarrow> string \<Rightarrow> bool" where
  "HasPrefix s p = (length p \<le> length s \<and> take (length p) s = p)"

definition TrimPrefix :: "string \<Rightarrow> string \<Rightarrow> string" where
  "TrimPrefix s p = (if HasPrefix s p then drop (length p) s else s)"

text \<open>\<open>strings.TrimRight(s, "/")\<close>: every trailing slash is removed.\<close>

definition TrimRightSlash :: "string \<Rightarrow> string" where
  "TrimRightSlash s = rev (dropWhile (\<lambda>c. c = CHR ''/'') (rev s))"

definition lowerChar :: "char \<Rightarrow> char" where
  "lowerChar c =
     (if (65::nat) \<le> of_char c \<and> (of_char c :: nat) \<le> 90
      then char_of ((of_char c :: nat) + 32) else c)"

definition ToLower :: "string \<Rightarrow> string" where
  "ToLower s = map lowerChar s"

text \<open>The ASCII white space of \<open>strings.TrimSpace\<close>: tab, line feed, vertical tab,
  form feed, carriage return and space.\<close>

definition asciiSpace :: "char \<Rightarrow> bool" where
  "asciiSpace c = (((9::nat) \<le> of_char c \<and> (of_char c :: nat) \<le> 13) \<or> (of_char c :: nat) = 32)"

definition TrimSpace :: "string \<Rightarrow> string" where
  "TrimSpace s = rev (dropWhile asciiSpace (rev (dropWhile asciiSpace s)))"

text \<open>\<open>filepath.Base\<close> and \<open>filepath.Ext\<close> with the separator \<open>/\<close>.\<close>

definition filepath_Base :: "string \<Rightarrow> string" where
  "filepath_Base path =
     (if path = [] then ''.''
      else let stripped = rev (dropWhile (\<lambda>c. c = CHR ''/'') (rev path));
               element = rev (takeWhile (\<lambda>c. c \<noteq> CHR ''/'') (rev stripped))
           in if element = [] then ''/'' else element)"

fun extFrom :: "string \<Rightarrow> string \<Rightarrow> string" where
  "extFrom [] acc = []"
| "extFrom (c # front) acc =
     (if c = CHR ''/'' then []
      else if c = CHR ''.'' then c # acc
      else extFrom front (c # acc))"

text \<open>\<open>filepath.Ext\<close> walks from the last byte towards the first (\<open>extFrom\<close> is given
  the reversed path and the bytes already passed) and stops at a separator or at the
  first dot it meets.\<close>

definition filepath_Ext :: "string \<Rightarrow> string" where
  "filepath_Ext path = extFrom (rev path) []"

subsection \<open>\<open>fmt.Sscanf(idxStr, "%d", &idx)\<close>\<close>

definition isDigit :: "char \<Rightarrow> bool" where
  "isDigit c = ((48::nat) \<le> of_char c \<and> (of_char c :: nat) \<le> 57)"

definition digitValue :: "char \<Rightarrow> int" where
  "digitValue c = int (of_char c) - 48"

definition digitsValue :: "string \<Rightarrow> int" where
  "digitsValue tok = foldl (\<lambda>a c. 10 * a + digitValue c) 0 tok"

text \<open>The scanner first skips blanks; a line feed is not a blank for \<open>Sscanf\<close> but an
  error, also after a carriage return.\<close>

fun SkipSpace :: "string \<Rightarrow> string option" where
  "SkipSpace [] = Some []"
| "SkipSpace (c # cs) =
     (if c = CHR 0x0D \<and> cs \<noteq> [] \<and> hd cs = CHR 0x0A then SkipSpace cs
      else if c = CHR 0x0A then None
      else if asciiSpace c then SkipSpace cs
      else Some (c # cs))"

text \<open>Then one optional sign and the longest run of decimal digits are read, and
  \<open>strconv.ParseInt(tok, 10, 64)\<close> converts them: no digit, or a value outside the
  64-bit range, is an error (\<open>None\<close>). What follows the digits is not looked at.\<close>

definition Sscanf_d :: "string \<Rightarrow> int option" where
  "Sscanf_d str =
     (case SkipSpace str of
        None \<Rightarrow> None
      | Some s1 \<Rightarrow>
          if s1 = [] then None
          else
            let negative = (hd s1 = CHR ''-'');
                s2 = (if hd s1 = CHR ''+'' \<or> hd s1 = CHR ''-'' then tl s1 else s1);
                tok = takeWhile isDigit s2
            in if tok = [] then None
               else
                 let i = (if negative then - digitsValue tok else digitsValue tok)
                 in if - (2 ^ 63) \<le> i \<and> i < 2 ^ 63 then Some i else None)"

text \<open>The decimal numeral of a natural number, as a user writes an index after \<open>@\<close>.\<close>

fun decimal :: "nat \<Rightarrow> string" where
  "decimal n =
     (if n < 10 then [char_of (48 + n)]
      else decimal (n div 10) @ [char_of (48 + n mod 10)])"

subsection \<open>Data model\<close>

record apiError =
  Message :: string
  Type :: string

record createVideoRequest =
  req_Model :: string
  req_Prompt :: string
  req_Image :: "string option"
  req_RemixFromVideoID :: "string option"
  req_Size :: "string option"
  req_Seconds :: "string option"

record createVideoResponse =
  resp_ID :: string
  resp_Status :: string
  resp_Error :: "apiError option"

record videoStatusResponse =
  st_ID :: string
  st_Status :: string
  st_Error :: "apiError option"
  st_Progress :: int

record videoHistoryEntry =
  ID :: string
  Prompt :: string
  CreatedAt :: string
  OutputFile :: string
  Model :: string
  ImageInput :: "string option"
  RemixedFrom :: "string option"

record history =
  Videos :: "videoHistoryEntry list"

text \<open>The flags of the command line, after \<open>flag.Parse\<close>. The two durations
  (\<open>--timeout\<close>, \<open>--poll-interval\<close>) only decide when the events of the polling script
  below happen, and are not kept. The flag \<open>output\<close> is the field \<open>outputFlag\<close>.\<close>

record flags =
  prompt :: string
  outputFlag :: string
  useRemote :: bool
  model :: string
  usePro :: bool
  baseURL :: string
  imageFile :: string
  remixFrom :: string
  listHistory :: bool
  seconds :: string
  portrait :: bool
  landscape :: bool

subsection \<open>Errors\<close>

datatype err =
    ErrHomeDir
  | ErrReadingHistory
  | ErrParsingHistory
  | ErrCreatingHistoryDir
  | ErrWritingHistory
  | ErrLoadingHistory err
  | ErrNoVideosInHistory
  | ErrInvalidIndex string
  | ErrIndexOutOfRange int nat
  | ErrReadFile string
  | ErrUnsupportedFormat string
  | ErrNewRequest string
  | ErrTransport
  | ErrApi nat string
  | ErrDecode
  | ErrMessage string
  | ErrMissingJobID
  | ErrDownloadStatus nat string
  | ErrCopy
  | ErrMkdir
  | ErrCreate
  | ErrSync
  | ErrClose
  | ErrRename
  | ErrReadPrompt

subsection \<open>The world outside the process\<close>

text \<open>The history file \<open>~/.sora-cli/history.json\<close> is kept decoded: it is absent,
  unreadable, not a JSON document of the expected shape, or it holds a list of entries
  (what \<open>json.Unmarshal\<close> yields; \<open>json.MarshalIndent\<close> of a list followed by
  \<open>json.Unmarshal\<close> gives the list back, its strings being valid UTF-8).\<close>

datatype historyFile = Absent | Unreadable | Malformed | Stored "videoHistoryEntry list"

text \<open>\<open>os.WriteFile\<close> succeeds, fails when it opens the file (the file is left as it
  was), or fails after it has truncated the file (a proper prefix of a JSON document is
  left, which does not parse).\<close>

datatype writeOutcome = WriteOk | WriteOpenFails | WriteShort

text \<open>What \<open>c.Do(req)\<close> gives: an error, or a response with its status code, its body
  and what \<open>json.NewDecoder(resp.Body).Decode(&out)\<close> makes of the body (\<open>None\<close> when
  decoding fails).\<close>

datatype 'a httpReply = NoReply | Reply nat string "'a option"

text \<open>\<open>io.Copy\<close> of a response body copies all of it, or stops with an error after
  some bytes have reached the destination.\<close>

datatype copyOutcome = CopyOk | CopyFails nat

text \<open>One turn of the polling loop starts with the \<open>select\<close>: the context is done, or
  the timer fires and the status request gets its reply.\<close>

datatype tick = CtxDone | Timer "videoStatusResponse httpReply"

text \<open>The requests sent to the remote service and the writes of the history file, in
  the order they happen.\<close>

datatype call =
    PostVideos string createVideoRequest
  | GetStatus string
  | GetContent string
  | WriteHistoryFile "videoHistoryEntry list"

text \<open>The lines written to the standard error stream, by kind.\<close>

datatype msg =
    MsgInvalidSeconds string
  | MsgBothOrientations
  | MsgLoadHistoryFailed err
  | MsgNoVideos
  | MsgHistoryListing "videoHistoryEntry list"
  | MsgOutputWithRemote
  | MsgNoApiKey
  | MsgReadPromptFailed
  | MsgPromptEmpty
  | MsgImageFailed err
  | MsgResolveFailed err
  | MsgRemixingFrom string
  | MsgCreateJobError err
  | MsgCreatedJob string
  | MsgContextDone
  | MsgPollError err
  | MsgJobError string
  | MsgProgress int
  | MsgJobFailed
  | MsgDownloadError err
  | MsgDownloading nat
  | MsgDownloaded nat
  | MsgSaved string
  | MsgHistoryWarning err

record world =
  envApiKey :: string
  stdinLine :: "string option"
  files :: "string \<Rightarrow> string option"
  homeDir :: "string option"
  historyFile :: historyFile
  historyMkdirFails :: bool
  historyWrite :: writeOutcome
  now :: string
  urlInvalid :: "string \<Rightarrow> bool"
  createReply :: "createVideoResponse httpReply"
  pollScript :: "tick list"
  contentReply :: "unit httpReply"
  copyResult :: copyOutcome
  mkdirFails :: bool
  createFails :: bool
  syncFails :: bool
  closeFails :: bool
  renameFails :: bool
  removeFails :: bool
  calls :: "call list"
  stdout :: string
  stderr :: "msg list"

text \<open>
  \<^item> \<open>envApiKey\<close>: \<open>os.Getenv("OPENAI_API_KEY")\<close> once \<open>godotenv.Load\<close> has run;
  \<^item> \<open>stdinLine\<close>: what \<open>rd.ReadString\<close> reads from the terminal (\<open>None\<close>: an error other
    than end of file);
  \<^item> \<open>files\<close>: the regular files, by path; \<open>homeDir\<close>: \<open>os.UserHomeDir\<close>;
  \<^item> \<open>now\<close>: \<open>time.Now().UTC().Format(time.RFC3339)\<close>;
  \<^item> \<open>urlInvalid\<close>: the URLs \<open>http.NewRequestWithContext\<close> refuses;
  \<^item> \<open>createReply\<close>, \<open>pollScript\<close>, \<open>contentReply\<close>: the remote service;
  \<^item> \<open>copyResult\<close> and the flags after it: which steps of the download fail
    (\<open>mkdirFails\<close>: the directory of the destination is not \<open>.\<close> and \<open>os.MkdirAll\<close> fails);
  \<^item> \<open>calls\<close>, \<open>stdout\<close>, \<open>stderr\<close>: what the process has done so far.
\<close>

definition say :: "msg \<Rightarrow> world \<Rightarrow> world" where
  "say m w = w\<lparr>stderr := stderr w @ [m]\<rparr>"

definition record_call :: "call \<Rightarrow> world \<Rightarrow> world" where
  "record_call c w = w\<lparr>calls := calls w @ [c]\<rparr>"

subsection \<open>The history store\<close>

definition loadHistory :: "world \<Rightarrow> err + history" where
  "loadHistory w =
     (case homeDir w of
        None \<Rightarrow> Inl ErrHomeDir
      | Some home \<Rightarrow>
          (case historyFile w of
             Absent \<Rightarrow> Inr \<lparr>Videos = []\<rparr>
           | Unreadable \<Rightarrow> Inl ErrReadingHistory
           | Malformed \<Rightarrow> Inl ErrParsingHistory
           | Stored vs \<Rightarrow> Inr \<lparr>Videos = vs\<rparr>))"

definition saveHistory :: "world \<Rightarrow> history \<Rightarrow> err option \<times> world" where
  "saveHistory w h =
     (case homeDir w of
        None \<Rightarrow> (Some ErrHomeDir, w)
      | Some home \<Rightarrow>
          if historyMkdirFails w then (Some ErrCreatingHistoryDir, w)
          else
            let w1 = record_call (WriteHistoryFile (Videos h)) w
            in (case historyWrite w of
                  WriteOk \<Rightarrow> (None, w1\<lparr>historyFile := Stored (Videos h)\<rparr>)
                | WriteOpenFails \<Rightarrow> (Some ErrWritingHistory, w1)
                | WriteShort \<Rightarrow> (Some ErrWritingHistory, w1\<lparr>historyFile := Malformed\<rparr>)))"

definition addToHistory :: "world \<Rightarrow> videoHistoryEntry \<Rightarrow> err option \<times> world" where
  "addToHistory w entry =
     (case loadHistory w of
        Inl e \<Rightarrow> (Some e, w)
      | Inr h \<Rightarrow>
          let h1 = h\<lparr>Videos := entry # Videos h\<rparr>;
              h2 = (if length (Videos h1) > 100 then h1\<lparr>Videos := take 100 (Videos h1)\<rparr> else h1)
          in saveHistory w h2)"

text \<open>The loop over the entries that looks for a recorded output file.\<close>

fun matchOutputFile :: "videoHistoryEntry list \<Rightarrow> string \<Rightarrow> string option" where
  "matchOutputFile [] ref = None"
| "matchOutputFile (v # vs) ref =
     (if OutputFile v = ref \<or> filepath_Base (OutputFile v) = ref then Some (ID v)
      else matchOutputFile vs ref)"

definition resolveRemixVideoID :: "world \<Rightarrow> string \<Rightarrow> err + string" where
  "resolveRemixVideoID w ref =
     (case loadHistory w of
        Inl e \<Rightarrow> Inl (ErrLoadingHistory e)
      | Inr h \<Rightarrow>
          if length (Videos h) = 0 then Inl ErrNoVideosInHistory
          else if ref = ''@last'' then Inr (ID (Videos h ! 0))
          else if HasPrefix ref ''@'' then
            (case Sscanf_d (TrimPrefix ref ''@'') of
               None \<Rightarrow> Inl (ErrInvalidIndex ref)
             | Some idx \<Rightarrow>
                 if idx < 0 \<or> idx \<ge> int (length (Videos h))
                 then Inl (ErrIndexOutOfRange idx (length (Videos h)))
                 else Inr (ID (Videos h ! nat idx)))
          else
            (case matchOutputFile (Videos h) ref of
               Some i \<Rightarrow> Inr i
             | None \<Rightarrow> Inr ref))"

subsection \<open>The image input\<close>

text \<open>\<open>base64.StdEncoding.EncodeToString\<close>: three bytes become four characters of the
  alphabet \<open>A-Z a-z 0-9 + /\<close>, and a last group of one or two bytes is padded with
  \<open>=\<close>.\<close>

definition b64char :: "nat \<Rightarrow> char" where
  "b64char i =
     (if i < 26 then char_of (65 + i)
      else if i < 52 then char_of (71 + i)
      else if i < 62 then char_of (i - 4)
      else if i = 62 then CHR ''+''
      else CHR ''/'')"

fun EncodeToString :: "string \<Rightarrow> string" where
  "EncodeToString [] = []"
| "EncodeToString [a] =
     [b64char (of_char a div 4), b64char ((of_char a mod 4) * 16), CHR ''='', CHR ''='']"
| "EncodeToString [a, b] =
     [b64char (of_char a div 4),
      b64char ((of_char a mod 4) * 16 + of_char b div 16),
      b64char ((of_char b mod 16) * 4), CHR ''='']"
| "EncodeToString (a # b # c # rest) =
     [b64char (of_char a div 4),
      b64char ((of_char a mod 4) * 16 + of_char b div 16),
      b64char ((of_char b mod 16) * 4 + of_char c div 64),
      b64char (of_char c mod 64)] @ EncodeToString rest"

text \<open>The map literal from extension to MIME type; a key that is not in the map
  yields the empty string.\<close>

definition mimeTypeOf :: "string \<Rightarrow> string" where
  "mimeTypeOf ext =
     (if ext = ''.jpg'' then ''image/jpeg''
      else if ext = ''.jpeg'' then ''image/jpeg''
      else if ext = ''.png'' then ''image/png''
      else if ext = ''.gif'' then ''image/gif''
      else if ext = ''.webp'' then ''image/webp''
      else [])"

definition encodeImageToDataURI :: "world \<Rightarrow> string \<Rightarrow> err + string" where
  "encodeImageToDataURI w filePath =
     (case files w filePath of
        None \<Rightarrow> Inl (ErrReadFile filePath)
      | Some data \<Rightarrow>
          let ext = ToLower (filepath_Ext filePath);
              mimeType = mimeTypeOf ext
          in if mimeType = [] then Inl (ErrUnsupportedFormat ext)
             else Inr (''data:'' @ mimeType @ '';base64,'' @ EncodeToString data))"

text \<open>To speak about the picture a data URI carries, the URI is read back: the text
  after the first comma is decoded from base64 (\<open>DecodeString\<close>), and the pixel
  dimensions of a PNG picture are the two big-endian 32-bit numbers of its \<open>IHDR\<close>
  chunk, which follows the eight-byte signature. The program itself never does
  either.\<close>

definition b64index :: "char \<Rightarrow> nat option" where
  "b64index c =
     (let n = (of_char c :: nat)
      in if 65 \<le> n \<and> n \<le> 90 then Some (n - 65)
         else if 97 \<le> n \<and> n \<le> 122 then Some (n - 71)
         else if 48 \<le> n \<and> n \<le> 57 then Some (n + 4)
         else if c = CHR ''+'' then Some 62
         else if c = CHR ''/'' then Some 63
         else None)"

fun DecodeString :: "string \<Rightarrow> string option" where
  "DecodeString [] = Some []"
| "DecodeString (p # q # r # s # rest) =
     (case (b64index p, b64index q) of
        (Some i, Some j) \<Rightarrow>
          if r = CHR ''='' \<and> s = CHR ''='' \<and> rest = [] then Some [char_of (i * 4 + j div 16)]
          else
            (case b64index r of
               None \<Rightarrow> None
             | Some k \<Rightarrow>
                 if s = CHR ''='' \<and> rest = []
                 then Some [char_of (i * 4 + j div 16), char_of ((j mod 16) * 16 + k div 4)]
                 else
                   (case (b64index s, DecodeString rest) of
                      (Some l, Some bytes) \<Rightarrow>
                        Some (char_of (i * 4 + j div 16) # char_of ((j mod 16) * 16 + k div 4)
                              # char_of ((k mod 4) * 64 + l) # bytes)
                    | _ \<Rightarrow> None))
      | _ \<Rightarrow> None)"
| "DecodeString _ = None"

definition dataURIPayload :: "string \<Rightarrow> string option" where
  "dataURIPayload uri = DecodeString (drop 1 (dropWhile (\<lambda>c. c \<noteq> CHR '','') uri))"

definition be32 :: "string \<Rightarrow> nat" where
  "be32 bs = foldl (\<lambda>a c. 256 * a + of_char c) 0 (take 4 bs)"

definition pngSignature :: string where
  "pngSignature = map char_of [137, 80, 78, 71, 13, 10, 26, 10 :: nat]"

definition pngSize :: "string \<Rightarrow> (nat \<times> nat) option" where
  "pngSize bs =
     (if 24 \<le> length bs \<and> take 8 bs = pngSignature \<and> take 4 (drop 12 bs) = ''IHDR''
      then Some (be32 (drop 16 bs), be32 (drop 20 bs))
      else None)"

subsection \<open>The job client\<close>

text \<open>The bearer credential \<open>apiKey\<close> only fills the \<open>Authorization\<close> header; the
  context and the HTTP client are the world. The body of an error response is read up
  to 4 MiB for the error text.\<close>

definition createVideoJob ::
  "world \<Rightarrow> string \<Rightarrow> string \<Rightarrow> string \<Rightarrow> string \<Rightarrow> string option \<Rightarrow> string option
     \<Rightarrow> string option \<Rightarrow> string option \<Rightarrow> (err + string) \<times> world" where
  "createVideoJob w baseURL' apiKey model' prompt' image' remixFromVideoID size' seconds' =
     (let body = \<lparr>req_Model = model', req_Prompt = prompt', req_Image = image',
                  req_RemixFromVideoID = remixFromVideoID, req_Size = size',
                  req_Seconds = seconds'\<rparr>;
          url = TrimRightSlash baseURL' @ ''/videos''
      in if urlInvalid w url then (Inl (ErrNewRequest url), w)
         else
           let w1 = record_call (PostVideos url body) w
           in (case createReply w of
                 NoReply \<Rightarrow> (Inl ErrTransport, w1)
               | Reply code raw decoded \<Rightarrow>
                   if code < 200 \<or> code \<ge> 300
                   then (Inl (ErrApi code (TrimSpace (take 4194304 raw))), w1)
                   else
                     (case decoded of
                        None \<Rightarrow> (Inl ErrDecode, w1)
                      | Some out \<Rightarrow>
                          (case (case resp_Error out of
                                   None \<Rightarrow> None
                                 | Some e \<Rightarrow> if Message e \<noteq> [] then Some (Message e) else None) of
                             Some m \<Rightarrow> (Inl (ErrMessage m), w1)
                           | None \<Rightarrow>
                               if resp_ID out = [] then (Inl ErrMissingJobID, w1)
                               else (Inr (resp_ID out), w1)))))"

definition fetchVideoStatus ::
  "world \<Rightarrow> string \<Rightarrow> string \<Rightarrow> string \<Rightarrow> videoStatusResponse httpReply
     \<Rightarrow> (err + videoStatusResponse) \<times> world" where
  "fetchVideoStatus w baseURL' apiKey id' reply =
     (let url = TrimRightSlash baseURL' @ ''/videos/'' @ id'
      in if urlInvalid w url then (Inl (ErrNewRequest url), w)
         else
           let w1 = record_call (GetStatus url) w
           in (case reply of
                 NoReply \<Rightarrow> (Inl ErrTransport, w1)
               | Reply code raw decoded \<Rightarrow>
                   if code < 200 \<or> code \<ge> 300
                   then (Inl (ErrApi code (TrimSpace (take 4194304 raw))), w1)
                   else
                     (case decoded of
                        None \<Rightarrow> (Inl ErrDecode, w1)
                      | Some out \<Rightarrow> (Inr out, w1))))"

subsection \<open>The download\<close>

text \<open>The deferred function of \<open>downloadFile\<close>: it closes the file and, when the
  variable \<open>err\<close> of \<open>downloadFile\<close> is set at that moment, removes the temporary file
  (\<open>os.Remove\<close> may itself fail, which is ignored). \<open>outerErr\<close> is the value of that
  variable when the function returns. The \<open>err\<close> of
  \<open>if err := f.Sync(); err != nil\<close> and of \<open>if err := f.Close(); err != nil\<close> are new
  variables of the \<open>if\<close> statements, and \<open>return os.Rename(tmp, outPath)\<close> assigns to no
  variable, so on these three returns the outer \<open>err\<close> still holds the \<open>nil\<close> that
  \<open>io.Copy\<close> stored.\<close>

definition deferredCleanup :: "string \<Rightarrow> err option \<Rightarrow> world \<Rightarrow> world" where
  "deferredCleanup tmp outerErr w =
     (if outerErr \<noteq> None \<and> \<not> removeFails w then w\<lparr>files := (files w)(tmp := None)\<rparr> else w)"

text \<open>\<open>progressWriter\<close> prints one progress line per chunk to the standard error
  stream; they are kept as one line with the number of bytes copied.\<close>

definition progress :: "nat \<Rightarrow> world \<Rightarrow> world" where
  "progress n w = (if n > 0 then say (MsgDownloading n) w else w)"

definition downloadFile :: "world \<Rightarrow> string \<Rightarrow> string \<Rightarrow> string \<Rightarrow> err option \<times> world" where
  "downloadFile w apiKey downloadURL outPath =
     (if urlInvalid w downloadURL then (Some (ErrNewRequest downloadURL), w)
      else
        let w1 = record_call (GetContent downloadURL) w
        in (case contentReply w of
              NoReply \<Rightarrow> (Some ErrTransport, w1)
            | Reply code body decoded \<Rightarrow>
                if code < 200 \<or> code \<ge> 300
                then (Some (ErrDownloadStatus code (TrimSpace (take 4194304 body))), w1)
                else if outPath = ''-'' then
                  (case copyResult w of
                     CopyFails n \<Rightarrow>
                       (Some ErrCopy,
                        progress (min n (length body)) (w1\<lparr>stdout := stdout w1 @ take n body\<rparr>))
                   | CopyOk \<Rightarrow>
                       (None,
                        say (MsgDownloaded (length body))
                          (progress (length body) (w1\<lparr>stdout := stdout w1 @ body\<rparr>))))
                else if mkdirFails w then (Some ErrMkdir, w1)
                else
                  let tmp = outPath @ ''.part''
                  in if createFails w then (Some ErrCreate, w1)
                     else
                       let w2 = w1\<lparr>files := (files w1)(tmp \<mapsto> [])\<rparr>
                       in (case copyResult w of
                             CopyFails n \<Rightarrow>
                               (Some ErrCopy,
                                deferredCleanup tmp (Some ErrCopy)
                                  (progress (min n (length body))
                                     (w2\<lparr>files := (files w2)(tmp \<mapsto> take n body)\<rparr>)))
                           | CopyOk \<Rightarrow>
                               let w3 = say (MsgDownloaded (length body))
                                          (progress (length body)
                                             (w2\<lparr>files := (files w2)(tmp \<mapsto> body)\<rparr>))
                               in if syncFails w then (Some ErrSync, deferredCleanup tmp None w3)
                                  else if closeFails w then (Some ErrClose, deferredCleanup tmp None w3)
                                  else if renameFails w then (Some ErrRename, deferredCleanup tmp None w3)
                                  else (None,
                                        deferredCleanup tmp None
                                          (w3\<lparr>files := ((files w3)(tmp := None))(outPath \<mapsto> body)\<rparr>)))))"

subsection \<open>The controller \<open>main\<close>\<close>

text \<open>\<open>main\<close> ends by \<open>os.Exit(code)\<close> or by returning; \<open>Pending\<close> says that the polling
  script has been used up while the loop is still waiting for its next turn.\<close>

datatype outcome = Exit nat | Returned | Pending

text \<open>The values \<open>main\<close> has fixed when its checks are done.\<close>

record settings =
  s_model :: string
  s_videoSize :: string
  s_apiKey :: string
  s_prompt :: string

definition promptInteractive :: "world \<Rightarrow> (err + string) \<times> world" where
  "promptInteractive w =
     (let w1 = w\<lparr>stdout := stdout w @ ''Enter your video prompt: ''\<rparr>
      in (case stdinLine w of
            None \<Rightarrow> (Inl ErrReadPrompt, w1)
          | Some line \<Rightarrow> (Inr (TrimSpace line), w1)))"

text \<open>Lines 107 to 188: the checks of the flags, \<open>--list\<close>, the credential and the
  prompt.\<close>

definition main_checks :: "flags \<Rightarrow> world \<Rightarrow> (outcome + settings) \<times> world" where
  "main_checks f w =
     (if seconds f \<noteq> ''4'' \<and> seconds f \<noteq> ''8'' \<and> seconds f \<noteq> ''12''
      then (Inl (Exit 2), say (MsgInvalidSeconds (seconds f)) w)
      else
        let model1 = (if usePro f then ''sora-2-pro'' else model f)
        in if portrait f \<and> landscape f then (Inl (Exit 2), say MsgBothOrientations w)
           else
             let videoSize = (if portrait f then ''720x1280'' else ''1280x720'')
             in if listHistory f then
                  (case loadHistory w of
                     Inl e \<Rightarrow> (Inl (Exit 1), say (MsgLoadHistoryFailed e) w)
                   | Inr h \<Rightarrow>
                       if length (Videos h) = 0 then (Inl (Exit 0), say MsgNoVideos w)
                       else (Inl (Exit 0), say (MsgHistoryListing (Videos h)) w))
                else if outputFlag f \<noteq> [] \<and> useRemote f
                then (Inl (Exit 2), say MsgOutputWithRemote w)
                else
                  let apiKey = TrimSpace (envApiKey w)
                  in if apiKey = [] then (Inl (Exit 1), say MsgNoApiKey w)
                     else if prompt f = [] then
                       (case promptInteractive w of
                          (Inl e, w1) \<Rightarrow> (Inl (Exit 1), say MsgReadPromptFailed w1)
                        | (Inr p, w1) \<Rightarrow>
                            if TrimSpace p = [] then (Inl (Exit 1), say MsgPromptEmpty w1)
                            else (Inr \<lparr>s_model = model1, s_videoSize = videoSize,
                                       s_apiKey = apiKey, s_prompt = p\<rparr>, w1))
                     else (Inr \<lparr>s_model = model1, s_videoSize = videoSize,
                                s_apiKey = apiKey, s_prompt = prompt f\<rparr>, w))"

text \<open>Lines 198 to 235: the image, the remix reference, the optional parameters and
  the submission.\<close>

definition main_submit :: "flags \<Rightarrow> settings \<Rightarrow> world \<Rightarrow> (outcome + string) \<times> world" where
  "main_submit f s w =
     (case (if imageFile f \<noteq> []
            then (case encodeImageToDataURI w (imageFile f) of
                    Inl e \<Rightarrow> Inl e
                  | Inr dataURI \<Rightarrow> Inr (Some dataURI))
            else Inr None) of
        Inl e \<Rightarrow> (Inl (Exit 1), say (MsgImageFailed e) w)
      | Inr imageDataURI \<Rightarrow>
          (case (if remixFrom f \<noteq> []
                 then (case resolveRemixVideoID w (remixFrom f) of
                         Inl e \<Rightarrow> Inl e
                       | Inr resolvedID \<Rightarrow> Inr (Some resolvedID))
                 else Inr None) of
             Inl e \<Rightarrow> (Inl (Exit 1), say (MsgResolveFailed e) w)
           | Inr remixVideoID \<Rightarrow>
               let w1 = (case remixVideoID of
                           Some resolvedID \<Rightarrow> say (MsgRemixingFrom resolvedID) w
                         | None \<Rightarrow> w);
                   sizeParam = (if s_videoSize s \<noteq> [] then Some (s_videoSize s) else None);
                   secondsParam = (if seconds f \<noteq> [] then Some (seconds f) else None)
               in (case createVideoJob w1 (baseURL f) (s_apiKey s) (s_model s) (s_prompt s)
                          imageDataURI remixVideoID sizeParam secondsParam of
                     (Inl e, w2) \<Rightarrow> (Inl (Exit 1), say (MsgCreateJobError e) w2)
                   | (Inr jobID, w2) \<Rightarrow> (Inr jobID, say (MsgCreatedJob jobID) w2))))"

text \<open>Lines 273 to 276: the progress bar, drawn on the standard error stream, is set
  to a progress value above zero.\<close>

definition updateBar :: "videoStatusResponse \<Rightarrow> world \<Rightarrow> world" where
  "updateBar st w = (if st_Progress st > 0 then say (MsgProgress (st_Progress st)) w else w)"

text \<open>Lines 253 to 291: the polling loop, one equation per kind of turn. It yields
  the download URL when the job has succeeded.\<close>

fun pollLoop ::
  "string \<Rightarrow> string \<Rightarrow> string \<Rightarrow> tick list \<Rightarrow> world \<Rightarrow> (outcome + string) \<times> world" where
  "pollLoop baseURL' apiKey jobID [] w = (Inl Pending, w)"
| "pollLoop baseURL' apiKey jobID (CtxDone # rest) w = (Inl (Exit 1), say MsgContextDone w)"
| "pollLoop baseURL' apiKey jobID (Timer reply # rest) w =
     (case fetchVideoStatus w baseURL' apiKey jobID reply of
        (Inl e, w1) \<Rightarrow> pollLoop baseURL' apiKey jobID rest (say (MsgPollError e) w1)
      | (Inr st, w1) \<Rightarrow>
          (case (case st_Error st of
                   None \<Rightarrow> None
                 | Some e \<Rightarrow> if Message e \<noteq> [] then Some (Message e) else None) of
             Some m \<Rightarrow> (Inl (Exit 1), say (MsgJobError m) w1)
           | None \<Rightarrow>
               let w2 = updateBar st w1;
                   status = ToLower (st_Status st)
               in if status \<in> set [''succeeded'', ''completed'', ''complete'', ''done'', ''ready'']
                  then (Inr (TrimRightSlash baseURL' @ ''/videos/'' @ jobID @ ''/content''),
                        say (MsgProgress 100) w2)
                  else if status \<in> set [''failed'', ''error'']
                  then (Inl (Exit 1), say MsgJobFailed w2)
                  else pollLoop baseURL' apiKey jobID rest w2))"

text \<open>Lines 294 to 302: the destination of the download.\<close>

definition main_output :: "string \<Rightarrow> bool \<Rightarrow> string \<Rightarrow> string" where
  "main_output output' useRemote' jobID =
     (if output' = [] then (if useRemote' then jobID @ ''.mp4'' else ''-'') else output')"

text \<open>Lines 293 to 332: the download and the history entry.\<close>

definition main_finish :: "flags \<Rightarrow> settings \<Rightarrow> string \<Rightarrow> string \<Rightarrow> world \<Rightarrow> outcome \<times> world" where
  "main_finish f s jobID downloadURL w =
     (let output' = main_output (outputFlag f) (useRemote f) jobID
      in (case downloadFile w (s_apiKey s) downloadURL output' of
            (Some e, w1) \<Rightarrow> (Exit 1, say (MsgDownloadError e) w1)
          | (None, w1) \<Rightarrow>
              let w2 = (if output' \<noteq> ''-'' then say (MsgSaved output') w1 else w1);
                  remixFromVideoID = (if remixFrom f \<noteq> [] then Some (remixFrom f) else None);
                  entry = \<lparr>ID = jobID, Prompt = s_prompt s, CreatedAt = now w2,
                           OutputFile = output', Model = s_model s,
                           ImageInput = (if imageFile f = [] then None else Some (imageFile f)),
                           RemixedFrom = remixFromVideoID\<rparr>
              in (case addToHistory w2 entry of
                    (Some e, w3) \<Rightarrow> (Returned, say (MsgHistoryWarning e) w3)
                  | (None, w3) \<Rightarrow> (Returned, w3))))"

text \<open>Lines 237 to 332: from the created job to the end of \<open>main\<close>.\<close>

definition main_job ::
  "flags \<Rightarrow> settings \<Rightarrow> string \<Rightarrow> tick list \<Rightarrow> world \<Rightarrow> outcome \<times> world" where
  "main_job f s jobID script w =
     (case pollLoop (baseURL f) (s_apiKey s) jobID script w of
        (Inl out, w1) \<Rightarrow> (out, w1)
      | (Inr downloadURL, w1) \<Rightarrow> main_finish f s jobID downloadURL w1)"

definition main :: "flags \<Rightarrow> world \<Rightarrow> outcome \<times> world" where
  "main f w =
     (case main_checks f w of
        (Inl out, w1) \<Rightarrow> (out, w1)
      | (Inr s, w1) \<Rightarrow>
          (case main_submit f s w1 of
             (Inl out, w2) \<Rightarrow> (out, w2)
           | (Inr jobID, w2) \<Rightarrow> main_job f s jobID (pollScript w2) w2))"

subsection \<open>Observations\<close>

text \<open>The entries the history file holds, the download requests and the writes of the
  history file among the calls made so far.\<close>

definition stored :: "world \<Rightarrow> videoHistoryEntry list" where
  "stored w = (case historyFile w of Stored vs \<Rightarrow> vs | _ \<Rightarrow> [])"

fun isDownload :: "call \<Rightarrow> bool" where
  "isDownload (GetContent url) = True"
| "isDownload c = False"

fun isHistoryWrite :: "call \<Rightarrow> bool" where
  "isHistoryWrite (WriteHistoryFile vs) = True"
| "isHistoryWrite c = False"

fun isStatusRequest :: "call \<Rightarrow> bool" where
  "isStatusRequest (GetStatus url) = True"
| "isStatusRequest c = False"

definition downloads :: "world \<Rightarrow> nat" where
  "downloads w = length (filter isDownload (calls w))"

definition historyWrites :: "world \<Rightarrow> nat" where
  "historyWrites w = length (filter isHistoryWrite (calls w))"

subsection \<open>Example inputs\<close>

text \<open>A world in which every step succeeds, with no history yet; a history entry by
  number; the flags of \<open>sora-cli -p "a red kite"\<close>; and status responses.\<close>

definition calmWorld :: world where
  "calmWorld =
     \<lparr>envApiKey = ''sk-test'', stdinLine = Some ''a red kite'', files = (\<lambda>p. None),
      homeDir = Some ''/home/u'', historyFile = Absent, historyMkdirFails = False,
      historyWrite = WriteOk, now = ''2025-01-02T00:00:00Z'', urlInvalid = (\<lambda>u. False),
      createReply = Reply 200 []
        (Some \<lparr>resp_ID = ''video_9'', resp_Status = ''queued'', resp_Error = None\<rparr>),
      pollScript = [], contentReply = Reply 200 ''MP4DATA'' (Some ()), copyResult = CopyOk,
      mkdirFails = False, createFails = False, syncFails = False, closeFails = False,
      renameFails = False, removeFails = False, calls = [], stdout = [], stderr = []\<rparr>"

definition sampleEntry :: "nat \<Rightarrow> videoHistoryEntry" where
  "sampleEntry n =
     \<lparr>ID = ''video_'' @ decimal n, Prompt = ''a red kite'',
      CreatedAt = ''2025-01-01T00:00:00Z'', OutputFile = ''out/clip'' @ decimal n @ ''.mp4'',
      Model = ''sora-2'', ImageInput = None, RemixedFrom = None\<rparr>"

definition plainFlags :: flags where
  "plainFlags =
     \<lparr>prompt = ''a red kite'', outputFlag = [], useRemote = False, model = ''sora-2'',
      usePro = False, baseURL = ''https://api.openai.com/v1'', imageFile = [],
      remixFrom = [], listHistory = False, seconds = ''12'', portrait = False,
      landscape = False\<rparr>"

definition statusOf :: "string \<Rightarrow> int \<Rightarrow> videoStatusResponse httpReply" where
  "statusOf status pct =
     Reply 200 []
       (Some \<lparr>st_ID = ''video_9'', st_Status = status, st_Error = None, st_Progress = pct\<rparr>)"

definition plainSettings :: settings where
  "plainSettings =
     \<lparr>s_model = ''sora-2'', s_videoSize = ''1280x720'', s_apiKey = ''sk-test'',
      s_prompt = ''a red kite''\<rparr>"

text \<open>The job succeeds at the first poll.\<close>

definition doneWorld :: world where
  "doneWorld = calmWorld\<lparr>pollScript := [Timer (statusOf ''succeeded'' 100)]\<rparr>"

text \<open>A status response that reports an error with a message, and one whose error
  object has an empty message.\<close>

definition moderationReply :: "videoStatusResponse httpReply" where
  "moderationReply =
     Reply 200 []
       (Some \<lparr>st_ID = ''video_9'', st_Status = ''failed'',
              st_Error = Some \<lparr>Message = ''moderation'', Type = ''policy''\<rparr>,
              st_Progress = 0\<rparr>)"

definition emptyErrorStatus :: videoStatusResponse where
  "emptyErrorStatus =
     \<lparr>st_ID = ''video_9'', st_Status = ''queued'',
      st_Error = Some \<lparr>Message = [], Type = ''server_error''\<rparr>, st_Progress = 0\<rparr>"




text \<open>A PNG picture of one pixel by one pixel (signature, \<open>IHDR\<close>, \<open>IDAT\<close>, \<open>IEND\<close>),
  stored as \<open>photo.png\<close>.\<close>

definition tinyPNG :: string where
  "tinyPNG = map char_of
     [137, 80, 78, 71, 13, 10, 26, 10, 0, 0, 0, 13, 73, 72, 68, 82, 0, 0, 0, 1, 0, 0, 0, 1,
      8, 6, 0, 0, 0, 31, 21, 196, 137, 0, 0, 0, 13, 73, 68, 65, 84, 120, 218, 99, 100, 96,
      248, 95, 15, 0, 2, 135, 1, 128, 235, 71, 186, 146, 0, 0, 0, 0, 73, 69, 78, 68, 174,
      66, 96, 130 :: nat]"

definition photoWorld :: world where
  "photoWorld = doneWorld\<lparr>files := (\<lambda>p. if p = ''photo.png'' then Some tinyPNG else None)\<rparr>"

declare decimal.simps [simp del]

section \<open>Properties\<close>

subsection \<open>Scanning a decimal index\<close>

lemma digit_char: "d < 10 \<Longrightarrow> isDigit (char_of (48 + (d::nat)))"
  by (simp add: isDigit_def)

lemma digit_value: "d < 10 \<Longrightarrow> digitValue (char_of (48 + (d::nat))) = int d"
  by (simp add: digitValue_def)

lemma decimal_digits: "list_all isDigit (decimal n)"
proof (induction n rule: decimal.induct)
  case (1 n)
  show ?case
  proof (cases "n < 10")
    case True
    then show ?thesis by (subst decimal.simps) (simp add: digit_char)
  next
    case False
    with 1 show ?thesis by (subst decimal.simps) (simp add: digit_char)
  qed
qed

lemma decimal_nonempty: "decimal n \<noteq> []"
  by (subst decimal.simps) simp

lemma digitsValue_snoc: "digitsValue (xs @ [c]) = 10 * digitsValue xs + digitValue c"
  by (simp add: digitsValue_def)

lemma digitsValue_decimal: "digitsValue (decimal n) = int n"
proof (induction n rule: decimal.induct)
  case (1 n)
  show ?case
  proof (cases "n < 10")
    case True
    then show ?thesis by (subst decimal.simps) (simp add: digitsValue_def digit_value)
  next
    case False
    with 1 have "digitsValue (decimal (n div 10)) = int (n div 10)" by simp
    with False show ?thesis
      by (subst decimal.simps) (simp add: digitsValue_snoc digit_value zdiv_int zmod_int)
  qed
qed

lemma digit_is_plain:
  "isDigit c \<Longrightarrow> \<not> asciiSpace c \<and> c \<noteq> CHR 0x0A \<and> c \<noteq> CHR 0x0D \<and> c \<noteq> CHR ''+''
     \<and> c \<noteq> CHR ''-'' \<and> c \<noteq> CHR ''l''"
  by (auto simp: isDigit_def asciiSpace_def)

lemma SkipSpace_digit: "xs \<noteq> [] \<Longrightarrow> isDigit (hd xs) \<Longrightarrow> SkipSpace xs = Some xs"
  by (cases xs) (auto dest: digit_is_plain)

lemma takeWhile_all: "list_all P xs \<Longrightarrow> takeWhile P xs = xs"
  by (induction xs) auto

lemma hd_decimal_digit: "isDigit (hd (decimal n))"
  using decimal_digits[of n] decimal_nonempty[of n] by (cases "decimal n") auto

lemma Sscanf_d_decimal:
  "Sscanf_d (decimal n) = (if n < 2 ^ 63 then Some (int n) else None)"
proof -
  have s: "SkipSpace (decimal n) = Some (decimal n)"
    by (rule SkipSpace_digit[OF decimal_nonempty hd_decimal_digit])
  have t: "takeWhile isDigit (decimal n) = decimal n"
    by (rule takeWhile_all[OF decimal_digits])
  have h: "hd (decimal n) \<noteq> CHR ''+''" "hd (decimal n) \<noteq> CHR ''-''"
    using digit_is_plain[OF hd_decimal_digit[of n]] by auto
  have "int n < 2 ^ 63 \<longleftrightarrow> n < 2 ^ 63"
    by (metis of_nat_less_iff of_nat_numeral of_nat_power)
  then show ?thesis
    by (simp add: Sscanf_d_def s t h decimal_nonempty digitsValue_decimal Let_def)
qed

lemma at_decimal_not_last: "''@'' @ decimal n \<noteq> ''@last''"
  using digit_is_plain[OF hd_decimal_digit[of n]] decimal_nonempty[of n]
  by (cases "decimal n") auto

subsection \<open>The history store\<close>

lemma saveHistory_ok:
  "saveHistory w h = (None, w') \<Longrightarrow> historyFile w' = Stored (Videos h)"
  by (auto simp: saveHistory_def record_call_def Let_def
           split: option.splits if_splits writeOutcome.splits)

lemma matchOutputFile_None:
  "\<forall>v\<in>set vs. OutputFile v \<noteq> ref \<and> filepath_Base (OutputFile v) \<noteq> ref
     \<Longrightarrow> matchOutputFile vs ref = None"
  by (induction vs) auto

text \<open>
  Claim C4. Whatever list the history file holds, a successful \<open>addToHistory\<close> stores
  the new entry followed by the first 99 of the old entries: the new entry is at
  position 0, at most 100 entries remain, the entries kept are the old ones in their
  old order and unchanged, and when 100 entries were held before, exactly 100 remain
  and the one that has gone is the last, the oldest.
\<close>

theorem addToHistory_prepends_then_truncates:
  assumes "loadHistory w = Inr h" and "addToHistory w entry = (None, w')"
  shows "historyFile w' = Stored (entry # take 99 (Videos h))
       \<and> stored w' ! 0 = entry
       \<and> length (stored w') \<le> 100
       \<and> tl (stored w') = take 99 (Videos h)
       \<and> (length (Videos h) = 100 \<longrightarrow>
            length (stored w') = 100 \<and> stored w' = entry # butlast (Videos h))"
proof -
  have "historyFile w' = Stored (entry # take 99 (Videos h))"
    using assms
    by (auto simp: addToHistory_def Let_def dest!: saveHistory_ok split: if_splits)
  moreover have "length (Videos h) = 100 \<Longrightarrow> take 99 (Videos h) = butlast (Videos h)"
    by (simp add: butlast_conv_take)
  ultimately show ?thesis by (simp add: stored_def)
qed

theorem addToHistory_prepends_then_truncates_witness:
  "loadHistory (calmWorld\<lparr>historyFile := Stored (map sampleEntry [0..<100])\<rparr>)
     = Inr \<lparr>Videos = map sampleEntry [0..<100]\<rparr>
   \<and> fst (addToHistory (calmWorld\<lparr>historyFile := Stored (map sampleEntry [0..<100])\<rparr>)
            (sampleEntry 100)) = None
   \<and> length (map sampleEntry [0..<100]) = 100
   \<and> stored (snd (addToHistory (calmWorld\<lparr>historyFile := Stored (map sampleEntry [0..<100])\<rparr>)
                    (sampleEntry 100)))
       = sampleEntry 100 # butlast (map sampleEntry [0..<100])
   \<and> length (stored (snd (addToHistory
                (calmWorld\<lparr>historyFile := Stored (map sampleEntry [0..<100])\<rparr>)
                (sampleEntry 100)))) = 100"
proof -
  let ?W = "calmWorld\<lparr>historyFile := Stored (map sampleEntry [0..<100])\<rparr>"
  have h1: "loadHistory ?W = Inr \<lparr>Videos = map sampleEntry [0..<100]\<rparr>"
    by (simp add: loadHistory_def calmWorld_def)
  have f: "homeDir ?W = Some ''/home/u''" "\<not> historyMkdirFails ?W" "historyWrite ?W = WriteOk"
    by (simp_all add: calmWorld_def)
  have h2: "fst (addToHistory ?W (sampleEntry 100)) = None"
    by (simp add: addToHistory_def h1 saveHistory_def f Let_def)
  have h3: "addToHistory ?W (sampleEntry 100) = (None, snd (addToHistory ?W (sampleEntry 100)))"
    using h2 by (metis prod.collapse)
  show ?thesis
    using h1 h2 addToHistory_prepends_then_truncates[OF h1 h3] by simp
qed

text \<open>
  Claim C5, as amended. On a history that is not empty, \<open>@last\<close> resolves to the id of
  the entry at position 0. \<open>@N\<close>, with \<open>N\<close> written in decimal, resolves to the id at
  position \<open>N\<close> when \<open>N\<close> is below the number of entries; it fails with the
  index-out-of-range error when \<open>N\<close> is at least the number of entries and fits the
  64-bit \<open>int\<close> (\<open>N < 2^63\<close>); a larger \<open>N\<close> does not scan as an \<open>int\<close> and fails with the
  invalid-index error. On an empty history every reference fails with the
  empty-history error.
\<close>

theorem resolve_last_and_index:
  assumes "loadHistory w = Inr h"
  shows "(Videos h \<noteq> [] \<longrightarrow> resolveRemixVideoID w ''@last'' = Inr (ID (Videos h ! 0)))
       \<and> (N < length (Videos h) \<and> N < 2 ^ 63 \<longrightarrow>
            resolveRemixVideoID w (''@'' @ decimal N) = Inr (ID (Videos h ! N)))
       \<and> (Videos h \<noteq> [] \<and> length (Videos h) \<le> N \<and> N < 2 ^ 63 \<longrightarrow>
            resolveRemixVideoID w (''@'' @ decimal N)
              = Inl (ErrIndexOutOfRange (int N) (length (Videos h))))
       \<and> (Videos h \<noteq> [] \<and> 2 ^ 63 \<le> N \<longrightarrow>
            resolveRemixVideoID w (''@'' @ decimal N) = Inl (ErrInvalidIndex (''@'' @ decimal N)))
       \<and> (Videos h = [] \<longrightarrow> resolveRemixVideoID w ref = Inl ErrNoVideosInHistory)"
  using assms at_decimal_not_last[of N]
  by (auto simp: resolveRemixVideoID_def HasPrefix_def TrimPrefix_def Sscanf_d_decimal)

theorem resolve_last_and_index_witness:
  "loadHistory (calmWorld\<lparr>historyFile := Stored [sampleEntry 0, sampleEntry 1]\<rparr>)
     = Inr \<lparr>Videos = [sampleEntry 0, sampleEntry 1]\<rparr>
   \<and> resolveRemixVideoID (calmWorld\<lparr>historyFile := Stored [sampleEntry 0, sampleEntry 1]\<rparr>)
        ''@last'' = Inr (ID (sampleEntry 0))
   \<and> resolveRemixVideoID (calmWorld\<lparr>historyFile := Stored [sampleEntry 0, sampleEntry 1]\<rparr>)
        (''@'' @ decimal 1) = Inr (ID (sampleEntry 1))
   \<and> resolveRemixVideoID (calmWorld\<lparr>historyFile := Stored [sampleEntry 0, sampleEntry 1]\<rparr>)
        (''@'' @ decimal 5) = Inl (ErrIndexOutOfRange 5 2)
   \<and> resolveRemixVideoID (calmWorld\<lparr>historyFile := Stored [sampleEntry 0, sampleEntry 1]\<rparr>)
        (''@'' @ decimal (2 ^ 63)) = Inl (ErrInvalidIndex (''@'' @ decimal (2 ^ 63)))
   \<and> loadHistory calmWorld = Inr \<lparr>Videos = []\<rparr>
   \<and> resolveRemixVideoID calmWorld ''@last'' = Inl ErrNoVideosInHistory"
proof -
  let ?W = "calmWorld\<lparr>historyFile := Stored [sampleEntry 0, sampleEntry 1]\<rparr>"
  have h: "loadHistory ?W = Inr \<lparr>Videos = [sampleEntry 0, sampleEntry 1]\<rparr>"
    by (simp add: loadHistory_def calmWorld_def)
  have e: "loadHistory calmWorld = Inr \<lparr>Videos = []\<rparr>"
    by (simp add: loadHistory_def calmWorld_def)
  show ?thesis
    using h e resolve_last_and_index[OF h, of 1] resolve_last_and_index[OF h, of 5]
      resolve_last_and_index[OF h, of "2 ^ 63"] resolve_last_and_index[OF e, of 0 "''@last''"]
    by simp
qed

theorem resolve_huge_index_counterexample:
  "length (stored (calmWorld\<lparr>historyFile := Stored [sampleEntry 0]\<rparr>)) = 1
   \<and> resolveRemixVideoID (calmWorld\<lparr>historyFile := Stored [sampleEntry 0]\<rparr>)
        ''@9223372036854775808'' = Inl (ErrInvalidIndex ''@9223372036854775808'')"
  by (simp add: resolveRemixVideoID_def loadHistory_def calmWorld_def stored_def HasPrefix_def
        TrimPrefix_def Sscanf_d_def isDigit_def asciiSpace_def digitsValue_def digitValue_def
        Let_def)

text \<open>
  Claim C6, as amended. On a history that is not empty, a reference that does not
  begin with \<open>@\<close> and equals neither the recorded output file of an entry nor its base
  name is returned unchanged, with no validation.
\<close>

theorem resolve_passes_literal_through:
  assumes "loadHistory w = Inr h" and "Videos h \<noteq> []" and "\<not> HasPrefix ref ''@''"
    and "\<forall>v\<in>set (Videos h). OutputFile v \<noteq> ref \<and> filepath_Base (OutputFile v) \<noteq> ref"
  shows "resolveRemixVideoID w ref = Inr ref"
  using assms matchOutputFile_None[OF assms(4)]
  by (auto simp: resolveRemixVideoID_def HasPrefix_def)

theorem resolve_passes_literal_through_witness:
  "loadHistory (calmWorld\<lparr>historyFile := Stored [sampleEntry 0]\<rparr>)
     = Inr \<lparr>Videos = [sampleEntry 0]\<rparr>
   \<and> \<not> HasPrefix ''video_abc'' ''@''
   \<and> OutputFile (sampleEntry 0) = ''out/clip0.mp4''
   \<and> filepath_Base ''out/clip0.mp4'' = ''clip0.mp4''
   \<and> resolveRemixVideoID (calmWorld\<lparr>historyFile := Stored [sampleEntry 0]\<rparr>) ''video_abc''
       = Inr ''video_abc''"
proof -
  let ?W = "calmWorld\<lparr>historyFile := Stored [sampleEntry 0]\<rparr>"
  have h: "loadHistory ?W = Inr \<lparr>Videos = [sampleEntry 0]\<rparr>"
    by (simp add: loadHistory_def calmWorld_def)
  have n: "Videos \<lparr>Videos = [sampleEntry 0]\<rparr> \<noteq> []" by simp
  have p: "\<not> HasPrefix ''video_abc'' ''@''" by (simp add: HasPrefix_def)
  have o: "OutputFile (sampleEntry 0) = ''out/clip0.mp4''"
    by code_simp
  have b: "filepath_Base ''out/clip0.mp4'' = ''clip0.mp4''"
    by code_simp
  have m: "\<forall>v\<in>set (Videos \<lparr>Videos = [sampleEntry 0]\<rparr>).
             OutputFile v \<noteq> ''video_abc'' \<and> filepath_Base (OutputFile v) \<noteq> ''video_abc''"
    by (simp add: o b)
  show ?thesis
    using h p o b resolve_passes_literal_through[OF h n p m] by simp
qed

theorem resolve_at_word_counterexample:
  "''@abc'' \<noteq> ''@last''
   \<and> Sscanf_d ''abc'' = None
   \<and> matchOutputFile (stored (calmWorld\<lparr>historyFile := Stored [sampleEntry 0]\<rparr>)) ''@abc'' = None
   \<and> resolveRemixVideoID (calmWorld\<lparr>historyFile := Stored [sampleEntry 0]\<rparr>) ''@abc''
       = Inl (ErrInvalidIndex ''@abc'')"
  by code_simp

text \<open>On an empty history the check for emptiness comes first, so a literal job
  identifier is not passed through either.\<close>

lemma literal_id_on_empty_history:
  "loadHistory calmWorld = Inr \<lparr>Videos = []\<rparr>
   \<and> resolveRemixVideoID calmWorld ''video_123'' = Inl ErrNoVideosInHistory"
  by code_simp

subsection \<open>The download and the destination\<close>

lemma say_fields [simp]:
  "files (say m w) = files w" "stdout (say m w) = stdout w" "calls (say m w) = calls w"
  "historyFile (say m w) = historyFile w" "homeDir (say m w) = homeDir w"
  "historyMkdirFails (say m w) = historyMkdirFails w" "historyWrite (say m w) = historyWrite w"
  "urlInvalid (say m w) = urlInvalid w" "contentReply (say m w) = contentReply w"
  "copyResult (say m w) = copyResult w" "mkdirFails (say m w) = mkdirFails w"
  "createFails (say m w) = createFails w" "syncFails (say m w) = syncFails w"
  "closeFails (say m w) = closeFails w" "renameFails (say m w) = renameFails w"
  "removeFails (say m w) = removeFails w" "now (say m w) = now w"
  "createReply (say m w) = createReply w" "pollScript (say m w) = pollScript w"
  by (simp_all add: say_def)

lemma record_call_fields [simp]:
  "files (record_call c w) = files w" "stdout (record_call c w) = stdout w"
  "calls (record_call c w) = calls w @ [c]"
  "historyFile (record_call c w) = historyFile w" "homeDir (record_call c w) = homeDir w"
  "historyMkdirFails (record_call c w) = historyMkdirFails w"
  "historyWrite (record_call c w) = historyWrite w"
  "urlInvalid (record_call c w) = urlInvalid w" "contentReply (record_call c w) = contentReply w"
  "copyResult (record_call c w) = copyResult w" "mkdirFails (record_call c w) = mkdirFails w"
  "createFails (record_call c w) = createFails w" "syncFails (record_call c w) = syncFails w"
  "closeFails (record_call c w) = closeFails w" "renameFails (record_call c w) = renameFails w"
  "removeFails (record_call c w) = removeFails w" "now (record_call c w) = now w"
  "createReply (record_call c w) = createReply w" "pollScript (record_call c w) = pollScript w"
  "stderr (record_call c w) = stderr w"
  by (simp_all add: record_call_def)

lemma progress_fields [simp]:
  "files (progress n w) = files w" "stdout (progress n w) = stdout w"
  "calls (progress n w) = calls w" "historyFile (progress n w) = historyFile w"
  "homeDir (progress n w) = homeDir w" "historyMkdirFails (progress n w) = historyMkdirFails w"
  "historyWrite (progress n w) = historyWrite w" "removeFails (progress n w) = removeFails w"
  "now (progress n w) = now w"
  by (simp_all add: progress_def)
















text \<open>When no prompt is given on the command line, the question that
  \<open>promptInteractive\<close> prints goes to the standard output, ahead of the body.\<close>

lemma interactive_prompt_on_stdout:
  "fst (main (plainFlags\<lparr>prompt := []\<rparr>) doneWorld) = Returned
   \<and> stdout (snd (main (plainFlags\<lparr>prompt := []\<rparr>) doneWorld))
       = ''Enter your video prompt: MP4DATA''"
  by code_simp

text \<open>
  Claim C9. A download to a named destination goes through \<open><destination>.part\<close>, and
  the destination itself only ever changes by the final rename. When \<open>io.Copy\<close> fails the
  temporary file is removed; but when \<open>f.Sync\<close>, \<open>f.Close\<close> or \<open>os.Rename\<close> fails, the
  function returns the error and the temporary file stays, with the whole body in it.
\<close>

theorem failed_sync_or_rename_leaves_part_file:
  "fst (downloadFile (calmWorld\<lparr>syncFails := True\<rparr>) ''sk-test'' ''u'' ''out.mp4'') = Some ErrSync
   \<and> files (snd (downloadFile (calmWorld\<lparr>syncFails := True\<rparr>) ''sk-test'' ''u'' ''out.mp4''))
       ''out.mp4.part'' = Some ''MP4DATA''
   \<and> files (snd (downloadFile (calmWorld\<lparr>syncFails := True\<rparr>) ''sk-test'' ''u'' ''out.mp4''))
       ''out.mp4'' = None
   \<and> fst (downloadFile (calmWorld\<lparr>renameFails := True\<rparr>) ''sk-test'' ''u'' ''out.mp4'')
       = Some ErrRename
   \<and> files (snd (downloadFile (calmWorld\<lparr>renameFails := True\<rparr>) ''sk-test'' ''u'' ''out.mp4''))
       ''out.mp4.part'' = Some ''MP4DATA''
   \<and> fst (downloadFile (calmWorld\<lparr>copyResult := CopyFails 3\<rparr>) ''sk-test'' ''u'' ''out.mp4'')
       = Some ErrCopy
   \<and> files (snd (downloadFile (calmWorld\<lparr>copyResult := CopyFails 3\<rparr>) ''sk-test'' ''u'' ''out.mp4''))
       ''out.mp4.part'' = None"
  by code_simp

lemma part_is_other_path: "outPath @ ''.part'' \<noteq> outPath"
proof
  assume "outPath @ ''.part'' = outPath"
  then have "length (outPath @ ''.part'') = length outPath" by simp
  then show False by simp
qed

lemma downloadFile_final_path_whole:
  assumes "outPath \<noteq> ''-''" and "downloadFile w apiKey url outPath = (r, w')"
    and "contentReply w = Reply code body d"
  shows "files w' outPath = files w outPath \<or> (r = None \<and> files w' outPath = Some body)"
  using assms part_is_other_path[of outPath]
  by (auto simp: downloadFile_def deferredCleanup_def Let_def
           split: if_splits copyOutcome.splits)

lemma downloadFile_copy_error_cleans:
  assumes "outPath \<noteq> ''-''" and "downloadFile w apiKey url outPath = (Some ErrCopy, w')"
    and "\<not> removeFails w"
  shows "files w' (outPath @ ''.part'') = None"
  using assms
  by (auto simp: downloadFile_def deferredCleanup_def Let_def
           split: if_splits copyOutcome.splits httpReply.splits)

subsection \<open>The polling loop\<close>

lemma counters_say [simp]:
  "downloads (say m w) = downloads w" "historyWrites (say m w) = historyWrites w"
  by (simp_all add: downloads_def historyWrites_def)

lemma counters_updateBar [simp]:
  "downloads (updateBar st w) = downloads w" "historyWrites (updateBar st w) = historyWrites w"
  "calls (updateBar st w) = calls w" "urlInvalid (updateBar st w) = urlInvalid w"
  by (simp_all add: updateBar_def)

lemma fetchVideoStatus_world:
  "fetchVideoStatus w b k j reply = (r, w1)
     \<Longrightarrow> w1 = w \<or> w1 = record_call (GetStatus (TrimRightSlash b @ ''/videos/'' @ j)) w"
  by (auto simp: fetchVideoStatus_def Let_def split: if_splits httpReply.splits option.splits)

lemma fetchVideoStatus_counters:
  "fetchVideoStatus w b k j reply = (r, w1)
     \<Longrightarrow> downloads w1 = downloads w \<and> historyWrites w1 = historyWrites w
       \<and> urlInvalid w1 = urlInvalid w"
  by (auto dest!: fetchVideoStatus_world simp: downloads_def historyWrites_def)

lemma downloadFile_calls:
  "downloadFile w k u p = (r, w')
     \<Longrightarrow> calls w' = calls w @ (if urlInvalid w u then [] else [GetContent u])"
  by (auto simp: downloadFile_def deferredCleanup_def Let_def
           split: if_splits httpReply.splits copyOutcome.splits)

lemma saveHistory_calls:
  "saveHistory w h = (r, w') \<Longrightarrow> filter isDownload (calls w') = filter isDownload (calls w)"
  by (auto simp: saveHistory_def Let_def split: option.splits if_splits writeOutcome.splits)

lemma addToHistory_calls:
  "addToHistory w entry = (r, w') \<Longrightarrow> downloads w' = downloads w"
  by (auto simp: addToHistory_def downloads_def Let_def dest: saveHistory_calls
           split: sum.splits if_splits)

lemma main_finish_downloads:
  assumes "\<not> urlInvalid w u"
  shows "downloads (snd (main_finish f s j u w)) = downloads w + 1"
proof -
  let ?out = "main_output (outputFlag f) (useRemote f) j"
  obtain r w1 where d: "downloadFile w (s_apiKey s) u ?out = (r, w1)"
    by (cases "downloadFile w (s_apiKey s) u ?out") auto
  have c: "downloads w1 = downloads w + 1"
    using downloadFile_calls[OF d] assms by (simp add: downloads_def)
  show ?thesis
  proof (cases r)
    case (Some e)
    with d c show ?thesis by (simp add: main_finish_def Let_def)
  next
    case None
    let ?w2 = "if ?out \<noteq> ''-'' then say (MsgSaved ?out) w1 else w1"
    let ?entry = "\<lparr>ID = j, Prompt = s_prompt s, CreatedAt = now ?w2, OutputFile = ?out,
                    Model = s_model s,
                    ImageInput = (if imageFile f = [] then None else Some (imageFile f)),
                    RemixedFrom = (if remixFrom f \<noteq> [] then Some (remixFrom f) else None)\<rparr>"
    obtain r3 w3 where a: "addToHistory ?w2 ?entry = (r3, w3)"
      by (cases "addToHistory ?w2 ?entry") auto
    have "downloads w3 = downloads w1"
      using addToHistory_calls[OF a] by (simp split: if_splits)
    moreover have "snd (main_finish f s j u w)
                     = (case r3 of Some e \<Rightarrow> say (MsgHistoryWarning e) w3 | None \<Rightarrow> w3)"
      using d None a by (simp add: main_finish_def Let_def split: option.splits)
    ultimately show ?thesis using c by (simp split: option.splits)
  qed
qed

text \<open>What the status request gives, by the kind of reply (lines 380 to 406): a URL that
  is no URL gives no request at all; no response, a status code outside 2xx and a body
  that does not decode each give an error; only a decoded 2xx body is a status.\<close>

lemma fetchVideoStatus_bad_url:
  "urlInvalid w (TrimRightSlash b @ ''/videos/'' @ j)
     \<Longrightarrow> fetchVideoStatus w b k j reply
           = (Inl (ErrNewRequest (TrimRightSlash b @ ''/videos/'' @ j)), w)"
  by (simp add: fetchVideoStatus_def)

lemma fetchVideoStatus_no_reply:
  "\<not> urlInvalid w (TrimRightSlash b @ ''/videos/'' @ j)
     \<Longrightarrow> fetchVideoStatus w b k j NoReply
           = (Inl ErrTransport, record_call (GetStatus (TrimRightSlash b @ ''/videos/'' @ j)) w)"
  by (simp add: fetchVideoStatus_def)

lemma fetchVideoStatus_not_2xx:
  "\<not> urlInvalid w (TrimRightSlash b @ ''/videos/'' @ j) \<Longrightarrow> code < 200 \<or> 300 \<le> code
     \<Longrightarrow> fetchVideoStatus w b k j (Reply code raw decoded)
           = (Inl (ErrApi code (TrimSpace (take 4194304 raw))),
              record_call (GetStatus (TrimRightSlash b @ ''/videos/'' @ j)) w)"
  by (auto simp: fetchVideoStatus_def)

lemma fetchVideoStatus_undecodable:
  "\<not> urlInvalid w (TrimRightSlash b @ ''/videos/'' @ j) \<Longrightarrow> 200 \<le> code \<and> code < 300
     \<Longrightarrow> fetchVideoStatus w b k j (Reply code raw None)
           = (Inl ErrDecode, record_call (GetStatus (TrimRightSlash b @ ''/videos/'' @ j)) w)"
  by (simp add: fetchVideoStatus_def)

lemma fetchVideoStatus_decoded:
  "\<not> urlInvalid w (TrimRightSlash b @ ''/videos/'' @ j) \<Longrightarrow> 200 \<le> code \<and> code < 300
     \<Longrightarrow> fetchVideoStatus w b k j (Reply code raw (Some st))
           = (Inr st, record_call (GetStatus (TrimRightSlash b @ ''/videos/'' @ j)) w)"
  by (simp add: fetchVideoStatus_def)

text \<open>One turn of the loop, by what the status request has given.\<close>

lemma turn_retry:
  "fetchVideoStatus w (baseURL f) (s_apiKey s) j reply = (Inl e, w1)
     \<Longrightarrow> main_job f s j (Timer reply # rest) w = main_job f s j rest (say (MsgPollError e) w1)"
  by (simp add: main_job_def)

lemma turn_fatal:
  "fetchVideoStatus w (baseURL f) (s_apiKey s) j reply = (Inr st, w1)
     \<Longrightarrow> st_Error st = Some e \<Longrightarrow> Message e \<noteq> []
     \<Longrightarrow> main_job f s j (Timer reply # rest) w = (Exit 1, say (MsgJobError (Message e)) w1)"
  by (simp add: main_job_def)

lemma quiet_error:
  "\<forall>e. st_Error st = Some e \<longrightarrow> Message e = []
     \<Longrightarrow> (case st_Error st of None \<Rightarrow> None
          | Some e \<Rightarrow> if Message e \<noteq> [] then Some (Message e) else None) = None"
  by (simp split: option.splits)

lemma turn_success:
  "fetchVideoStatus w (baseURL f) (s_apiKey s) j reply = (Inr st, w1)
     \<Longrightarrow> \<forall>e. st_Error st = Some e \<longrightarrow> Message e = []
     \<Longrightarrow> ToLower (st_Status st)
           \<in> set [''succeeded'', ''completed'', ''complete'', ''done'', ''ready'']
     \<Longrightarrow> main_job f s j (Timer reply # rest) w
           = main_finish f s j (TrimRightSlash (baseURL f) @ ''/videos/'' @ j @ ''/content'')
               (say (MsgProgress 100) (updateBar st w1))"
  by (simp add: main_job_def quiet_error Let_def)

lemma turn_success_downloads:
  assumes "fetchVideoStatus w (baseURL f) (s_apiKey s) j reply = (Inr st, w1)"
    and "\<forall>e. st_Error st = Some e \<longrightarrow> Message e = []"
    and "ToLower (st_Status st)
           \<in> set [''succeeded'', ''completed'', ''complete'', ''done'', ''ready'']"
    and "\<not> urlInvalid w (TrimRightSlash (baseURL f) @ ''/videos/'' @ j @ ''/content'')"
  shows "downloads (snd (main_job f s j (Timer reply # rest) w)) = downloads w + 1"
proof -
  note c = fetchVideoStatus_counters[OF assms(1)]
  have "\<not> urlInvalid (say (MsgProgress 100) (updateBar st w1))
            (TrimRightSlash (baseURL f) @ ''/videos/'' @ j @ ''/content'')"
    using assms(4) c by simp
  from main_finish_downloads[OF this, where f = f and s = s and j = j]
    turn_success[OF assms(1,2,3), where rest = rest] c
  show ?thesis by simp
qed

lemma turn_failure:
  "fetchVideoStatus w (baseURL f) (s_apiKey s) j reply = (Inr st, w1)
     \<Longrightarrow> \<forall>e. st_Error st = Some e \<longrightarrow> Message e = []
     \<Longrightarrow> ToLower (st_Status st) \<in> set [''failed'', ''error'']
     \<Longrightarrow> main_job f s j (Timer reply # rest) w = (Exit 1, say MsgJobFailed (updateBar st w1))"
  by (auto simp: main_job_def quiet_error Let_def)

lemma turn_other:
  "fetchVideoStatus w (baseURL f) (s_apiKey s) j reply = (Inr st, w1)
     \<Longrightarrow> \<forall>e. st_Error st = Some e \<longrightarrow> Message e = []
     \<Longrightarrow> ToLower (st_Status st)
           \<notin> set [''succeeded'', ''completed'', ''complete'', ''done'', ''ready'',
                   ''failed'', ''error'']
     \<Longrightarrow> main_job f s j (Timer reply # rest) w = main_job f s j rest (updateBar st w1)"
  by (simp add: main_job_def quiet_error Let_def)

text \<open>
  Claim C2, as amended. One turn of the polling loop, by the reply to its status
  request; \<open>su\<close> is the status URL and \<open>w1\<close> the world once the request has been sent. The
  request itself downloads nothing and writes no history.
  \<^item> A poll with no response (the transport-level error) is reported, and the loop goes
    on with the next turn. The loop does the same with the other errors of the status
    request: a status code outside 2xx, a body that does not decode, and a URL that is
    no URL, in which case no request is sent.
  \<^item> A decoded 2xx response whose error object has a message that is not empty ends
    the run with exit code 1; the rest of the script is not looked at.
  \<^item> Otherwise (no error object, or one with an empty message) the status is compared
    in lower case. A word of the success vocabulary hands over to the download, which
    is then one more download than before; a word of the failure vocabulary ends
    the run with exit code 1, with no download and no write of the history file; any
    other ASCII status goes on with the next turn.
\<close>

theorem polling_turn:
  assumes "su = TrimRightSlash (baseURL f) @ ''/videos/'' @ jobID"
    and "w1 = record_call (GetStatus su) w"
  shows "downloads w1 = downloads w \<and> historyWrites w1 = historyWrites w
    \<and> (urlInvalid w su \<longrightarrow>
          main_job f s jobID (Timer reply # rest) w
            = main_job f s jobID rest (say (MsgPollError (ErrNewRequest su)) w))
    \<and> (\<not> urlInvalid w su \<longrightarrow>
          main_job f s jobID (Timer NoReply # rest) w
            = main_job f s jobID rest (say (MsgPollError ErrTransport) w1)
        \<and> (code < 200 \<or> 300 \<le> code \<longrightarrow>
             main_job f s jobID (Timer (Reply code raw decoded) # rest) w
               = main_job f s jobID rest
                   (say (MsgPollError (ErrApi code (TrimSpace (take 4194304 raw)))) w1))
        \<and> (200 \<le> code \<and> code < 300 \<longrightarrow>
             main_job f s jobID (Timer (Reply code raw None) # rest) w
               = main_job f s jobID rest (say (MsgPollError ErrDecode) w1)
           \<and> (st_Error st = Some e \<and> Message e \<noteq> [] \<longrightarrow>
                main_job f s jobID (Timer (Reply code raw (Some st)) # rest) w
                  = (Exit 1, say (MsgJobError (Message e)) w1))
           \<and> ((\<forall>e. st_Error st = Some e \<longrightarrow> Message e = []) \<longrightarrow>
                (ToLower (st_Status st)
                    \<in> set [''succeeded'', ''completed'', ''complete'', ''done'', ''ready''] \<longrightarrow>
                   main_job f s jobID (Timer (Reply code raw (Some st)) # rest) w
                     = main_finish f s jobID (su @ ''/content'')
                         (say (MsgProgress 100) (updateBar st w1))
                   \<and> (\<not> urlInvalid w (su @ ''/content'') \<longrightarrow>
                        downloads (snd (main_job f s jobID
                                          (Timer (Reply code raw (Some st)) # rest) w))
                          = downloads w + 1))
              \<and> (ToLower (st_Status st) \<in> set [''failed'', ''error''] \<longrightarrow>
                   main_job f s jobID (Timer (Reply code raw (Some st)) # rest) w
                     = (Exit 1, say MsgJobFailed (updateBar st w1))
                   \<and> downloads (snd (main_job f s jobID
                                       (Timer (Reply code raw (Some st)) # rest) w))
                       = downloads w
                   \<and> historyWrites (snd (main_job f s jobID
                                           (Timer (Reply code raw (Some st)) # rest) w))
                       = historyWrites w)
              \<and> (isASCII (st_Status st)
                  \<and> ToLower (st_Status st)
                      \<notin> set [''succeeded'', ''completed'', ''complete'', ''done'', ''ready'',
                              ''failed'', ''error''] \<longrightarrow>
                   main_job f s jobID (Timer (Reply code raw (Some st)) # rest) w
                     = main_job f s jobID rest (updateBar st w1)))))"
proof -
  let ?su = "TrimRightSlash (baseURL f) @ ''/videos/'' @ jobID"
  let ?w1 = "record_call (GetStatus ?su) w"
  let ?job = "\<lambda>reply. main_job f s jobID (Timer reply # rest) w"
  have c: "downloads ?w1 = downloads w" "historyWrites ?w1 = historyWrites w"
    by (simp_all add: downloads_def historyWrites_def)
  have bad: "?job reply = main_job f s jobID rest (say (MsgPollError (ErrNewRequest ?su)) w)"
    if "urlInvalid w ?su"
    by (rule turn_retry) (rule fetchVideoStatus_bad_url[OF that])
  have none: "?job NoReply = main_job f s jobID rest (say (MsgPollError ErrTransport) ?w1)"
    if "\<not> urlInvalid w ?su"
    by (rule turn_retry) (rule fetchVideoStatus_no_reply[OF that])
  have code: "?job (Reply code raw decoded)
                = main_job f s jobID rest
                    (say (MsgPollError (ErrApi code (TrimSpace (take 4194304 raw)))) ?w1)"
    if "\<not> urlInvalid w ?su" "code < 200 \<or> 300 \<le> code"
    by (rule turn_retry) (rule fetchVideoStatus_not_2xx[OF that])
  have body: "?job (Reply code raw None)
                = main_job f s jobID rest (say (MsgPollError ErrDecode) ?w1)"
    if "\<not> urlInvalid w ?su" "200 \<le> code \<and> code < 300"
    by (rule turn_retry) (rule fetchVideoStatus_undecodable[OF that])
  have fatal: "?job (Reply code raw (Some st)) = (Exit 1, say (MsgJobError (Message e)) ?w1)"
    if "\<not> urlInvalid w ?su" "200 \<le> code \<and> code < 300" "st_Error st = Some e \<and> Message e \<noteq> []"
    using turn_fatal[OF fetchVideoStatus_decoded[OF that(1,2)], where e = e and rest = rest] that(3)
    by simp
  have ok: "?job (Reply code raw (Some st))
              = main_finish f s jobID (?su @ ''/content'')
                  (say (MsgProgress 100) (updateBar st ?w1))"
    if "\<not> urlInvalid w ?su" "200 \<le> code \<and> code < 300"
      "\<forall>e. st_Error st = Some e \<longrightarrow> Message e = []"
      "ToLower (st_Status st) \<in> set [''succeeded'', ''completed'', ''complete'', ''done'', ''ready'']"
    using turn_success[OF fetchVideoStatus_decoded[OF that(1,2)] that(3,4), where rest = rest] by simp
  have once: "downloads (snd (?job (Reply code raw (Some st)))) = downloads w + 1"
    if "\<not> urlInvalid w ?su" "200 \<le> code \<and> code < 300"
      "\<forall>e. st_Error st = Some e \<longrightarrow> Message e = []"
      "ToLower (st_Status st) \<in> set [''succeeded'', ''completed'', ''complete'', ''done'', ''ready'']"
      "\<not> urlInvalid w (?su @ ''/content'')"
  proof -
    have "\<not> urlInvalid w (TrimRightSlash (baseURL f) @ ''/videos/'' @ jobID @ ''/content'')"
      using that(5) by simp
    from turn_success_downloads[OF fetchVideoStatus_decoded[OF that(1,2)] that(3,4) this,
        where rest = rest]
    show ?thesis .
  qed
  have failed: "?job (Reply code raw (Some st)) = (Exit 1, say MsgJobFailed (updateBar st ?w1))"
    if "\<not> urlInvalid w ?su" "200 \<le> code \<and> code < 300"
      "\<forall>e. st_Error st = Some e \<longrightarrow> Message e = []"
      "ToLower (st_Status st) \<in> set [''failed'', ''error'']"
    using turn_failure[OF fetchVideoStatus_decoded[OF that(1,2)] that(3,4), where rest = rest] .
  have other: "?job (Reply code raw (Some st)) = main_job f s jobID rest (updateBar st ?w1)"
    if "\<not> urlInvalid w ?su" "200 \<le> code \<and> code < 300"
      "\<forall>e. st_Error st = Some e \<longrightarrow> Message e = []"
      "isASCII (st_Status st)
       \<and> ToLower (st_Status st)
           \<notin> set [''succeeded'', ''completed'', ''complete'', ''done'', ''ready'',
                   ''failed'', ''error'']"
    using turn_other[OF fetchVideoStatus_decoded[OF that(1,2)] that(3), where rest = rest] that(4)
    by blast
  show ?thesis
    unfolding assms
  proof (intro conjI impI)
    show "downloads ?w1 = downloads w" by (rule c)
    show "historyWrites ?w1 = historyWrites w" by (rule c)
  next
    assume "urlInvalid w ?su"
    then show "?job reply = main_job f s jobID rest (say (MsgPollError (ErrNewRequest ?su)) w)"
      by (rule bad)
  next
    assume "\<not> urlInvalid w ?su"
    then show "?job NoReply = main_job f s jobID rest (say (MsgPollError ErrTransport) ?w1)"
      by (rule none)
  next
    assume "\<not> urlInvalid w ?su" "code < 200 \<or> 300 \<le> code"
    then show "?job (Reply code raw decoded)
                 = main_job f s jobID rest
                     (say (MsgPollError (ErrApi code (TrimSpace (take 4194304 raw)))) ?w1)"
      by (rule code)
  next
    assume "\<not> urlInvalid w ?su" "200 \<le> code \<and> code < 300"
    then show "?job (Reply code raw None)
                 = main_job f s jobID rest (say (MsgPollError ErrDecode) ?w1)"
      by (rule body)
  next
    assume "\<not> urlInvalid w ?su" "200 \<le> code \<and> code < 300"
      "st_Error st = Some e \<and> Message e \<noteq> []"
    then show "?job (Reply code raw (Some st)) = (Exit 1, say (MsgJobError (Message e)) ?w1)"
      by (rule fatal)
  next
    assume a: "\<not> urlInvalid w ?su" "200 \<le> code \<and> code < 300"
      "\<forall>e. st_Error st = Some e \<longrightarrow> Message e = []"
      "ToLower (st_Status st) \<in> set [''succeeded'', ''completed'', ''complete'', ''done'', ''ready'']"
    show "?job (Reply code raw (Some st))
            = main_finish f s jobID (?su @ ''/content'')
                (say (MsgProgress 100) (updateBar st ?w1))"
      using a by (rule ok)
    assume "\<not> urlInvalid w (?su @ ''/content'')"
    with a show "downloads (snd (?job (Reply code raw (Some st)))) = downloads w + 1"
      by (rule once)
  next
    assume a: "\<not> urlInvalid w ?su" "200 \<le> code \<and> code < 300"
      "\<forall>e. st_Error st = Some e \<longrightarrow> Message e = []"
      "ToLower (st_Status st) \<in> set [''failed'', ''error'']"
    have e: "?job (Reply code raw (Some st)) = (Exit 1, say MsgJobFailed (updateBar st ?w1))"
      using a by (rule failed)
    show "?job (Reply code raw (Some st)) = (Exit 1, say MsgJobFailed (updateBar st ?w1))"
      by (rule e)
    show "downloads (snd (?job (Reply code raw (Some st)))) = downloads w"
      using c by (simp add: e)
    show "historyWrites (snd (?job (Reply code raw (Some st)))) = historyWrites w"
      using c by (simp add: e)
  next
    assume "\<not> urlInvalid w ?su" "200 \<le> code \<and> code < 300"
      "\<forall>e. st_Error st = Some e \<longrightarrow> Message e = []"
      "isASCII (st_Status st)
       \<and> ToLower (st_Status st)
           \<notin> set [''succeeded'', ''completed'', ''complete'', ''done'', ''ready'',
                   ''failed'', ''error'']"
    then show "?job (Reply code raw (Some st)) = main_job f s jobID rest (updateBar st ?w1)"
      by (rule other)
  qed
qed


theorem polling_turn_witness:
  "urlInvalid (calmWorld\<lparr>urlInvalid := (\<lambda>u. True)\<rparr>)
     (TrimRightSlash (baseURL plainFlags) @ ''/videos/'' @ ''video_9'')
   \<and> main_job plainFlags plainSettings ''video_9'' [Timer NoReply, CtxDone]
       (calmWorld\<lparr>urlInvalid := (\<lambda>u. True)\<rparr>)
     = main_job plainFlags plainSettings ''video_9'' [CtxDone]
         (say (MsgPollError
                 (ErrNewRequest (TrimRightSlash (baseURL plainFlags) @ ''/videos/'' @ ''video_9'')))
            (calmWorld\<lparr>urlInvalid := (\<lambda>u. True)\<rparr>))
   \<and> \<not> urlInvalid calmWorld (TrimRightSlash (baseURL plainFlags) @ ''/videos/'' @ ''video_9'')
   \<and> main_job plainFlags plainSettings ''video_9'' [Timer NoReply, CtxDone] calmWorld
     = main_job plainFlags plainSettings ''video_9'' [CtxDone]
         (say (MsgPollError ErrTransport)
            (record_call
               (GetStatus (TrimRightSlash (baseURL plainFlags) @ ''/videos/'' @ ''video_9''))
               calmWorld))
   \<and> main_job plainFlags plainSettings ''video_9'' [Timer (Reply 503 ''busy'' None), CtxDone]
       calmWorld
     = main_job plainFlags plainSettings ''video_9'' [CtxDone]
         (say (MsgPollError (ErrApi 503 (TrimSpace (take 4194304 ''busy''))))
            (record_call
               (GetStatus (TrimRightSlash (baseURL plainFlags) @ ''/videos/'' @ ''video_9''))
               calmWorld))
   \<and> main_job plainFlags plainSettings ''video_9'' [Timer (Reply 200 ''<html>'' None), CtxDone]
       calmWorld
     = main_job plainFlags plainSettings ''video_9'' [CtxDone]
         (say (MsgPollError ErrDecode)
            (record_call
               (GetStatus (TrimRightSlash (baseURL plainFlags) @ ''/videos/'' @ ''video_9''))
               calmWorld))
   \<and> main_job plainFlags plainSettings ''video_9'' [Timer (statusOf ''queued'' 0), CtxDone] calmWorld
     = main_job plainFlags plainSettings ''video_9'' [CtxDone]
         (updateBar \<lparr>st_ID = ''video_9'', st_Status = ''queued'', st_Error = None, st_Progress = 0\<rparr>
            (record_call
               (GetStatus (TrimRightSlash (baseURL plainFlags) @ ''/videos/'' @ ''video_9''))
               calmWorld))
   \<and> main_job plainFlags plainSettings ''video_9'' [Timer moderationReply, CtxDone] calmWorld
     = (Exit 1,
        say (MsgJobError ''moderation'')
          (record_call
             (GetStatus (TrimRightSlash (baseURL plainFlags) @ ''/videos/'' @ ''video_9''))
             calmWorld))
   \<and> ToLower ''Succeeded'' = ''succeeded''
   \<and> downloads (snd (main_job plainFlags plainSettings ''video_9''
                       [Timer (statusOf ''Succeeded'' 100), CtxDone] calmWorld))
     = downloads calmWorld + 1
   \<and> ToLower ''FAILED'' = ''failed''
   \<and> fst (main_job plainFlags plainSettings ''video_9'' [Timer (statusOf ''FAILED'' 0), CtxDone]
            calmWorld) = Exit 1
   \<and> downloads (snd (main_job plainFlags plainSettings ''video_9''
                       [Timer (statusOf ''FAILED'' 0), CtxDone] calmWorld)) = downloads calmWorld
   \<and> historyWrites (snd (main_job plainFlags plainSettings ''video_9''
                           [Timer (statusOf ''FAILED'' 0), CtxDone] calmWorld))
     = historyWrites calmWorld"
proof -
  let ?su = "TrimRightSlash (baseURL plainFlags) @ ''/videos/'' @ ''video_9''"
  let ?bad = "calmWorld\<lparr>urlInvalid := (\<lambda>u. True)\<rparr>"
  let ?job = "\<lambda>script. main_job plainFlags plainSettings ''video_9'' script calmWorld"
  let ?queued = "\<lparr>st_ID = ''video_9'', st_Status = ''queued'', st_Error = None, st_Progress = 0\<rparr>"
  let ?refused = "\<lparr>st_ID = ''video_9'', st_Status = ''failed'',
                   st_Error = Some \<lparr>Message = ''moderation'', Type = ''policy''\<rparr>,
                   st_Progress = 0\<rparr>"
  let ?done = "\<lparr>st_ID = ''video_9'', st_Status = ''Succeeded'', st_Error = None,
                st_Progress = 100\<rparr>"
  let ?failed = "\<lparr>st_ID = ''video_9'', st_Status = ''FAILED'', st_Error = None, st_Progress = 0\<rparr>"
  have ub: "urlInvalid ?bad ?su" by simp
  have u: "\<not> urlInvalid calmWorld ?su" by (simp add: calmWorld_def)
  have uc: "\<not> urlInvalid calmWorld (?su @ ''/content'')" by (simp add: calmWorld_def)
  have low: "ToLower ''Succeeded'' = ''succeeded''" "ToLower ''FAILED'' = ''failed''"
    "ToLower ''queued'' = ''queued''" "isASCII ''queued''"
    by code_simp+
  have k503: "(503::nat) < 200 \<or> 300 \<le> (503::nat)" by simp
  have k200: "200 \<le> (200::nat) \<and> (200::nat) < 300" by simp
  have c0: "main_job plainFlags plainSettings ''video_9'' [Timer NoReply, CtxDone] ?bad
              = main_job plainFlags plainSettings ''video_9'' [CtxDone]
                  (say (MsgPollError (ErrNewRequest ?su)) ?bad)"
    using polling_turn[where f = plainFlags and s = plainSettings and jobID = "''video_9''"
            and w = ?bad and reply = NoReply and rest = "[CtxDone]", OF refl refl,
            THEN conjunct2, THEN conjunct2, THEN conjunct1, THEN mp, OF ub] .
  note t2 = polling_turn[where f = plainFlags and s = plainSettings and jobID = "''video_9''"
            and w = calmWorld and rest = "[CtxDone]" and code = 503 and raw = "''busy''"
            and decoded = None, OF refl refl,
            THEN conjunct2, THEN conjunct2, THEN conjunct2, THEN mp, OF u]
  note c1 = t2[THEN conjunct1]
  note c2 = t2[THEN conjunct2, THEN conjunct1, THEN mp, OF k503]
  note c3 = polling_turn[where f = plainFlags and s = plainSettings and jobID = "''video_9''"
            and w = calmWorld and rest = "[CtxDone]" and code = 200 and raw = "''<html>''",
            OF refl refl,
            THEN conjunct2, THEN conjunct2, THEN conjunct2, THEN mp, OF u,
            THEN conjunct2, THEN conjunct2, THEN mp, OF k200, THEN conjunct1]
  have q4: "st_Error ?refused = Some \<lparr>Message = ''moderation'', Type = ''policy''\<rparr>
            \<and> Message \<lparr>Message = ''moderation'', Type = ''policy''\<rparr> \<noteq> []"
    by simp
  have c4: "?job [Timer (Reply 200 [] (Some ?refused)), CtxDone]
              = (Exit 1, say (MsgJobError ''moderation'') (record_call (GetStatus ?su) calmWorld))"
    using polling_turn[where f = plainFlags and s = plainSettings and jobID = "''video_9''"
            and w = calmWorld and rest = "[CtxDone]" and code = 200 and raw = "[]"
            and st = ?refused and e = "\<lparr>Message = ''moderation'', Type = ''policy''\<rparr>",
            OF refl refl,
            THEN conjunct2, THEN conjunct2, THEN conjunct2, THEN mp, OF u,
            THEN conjunct2, THEN conjunct2, THEN mp, OF k200,
            THEN conjunct2, THEN conjunct1, THEN mp, OF q4]
    by simp
  have q5: "\<forall>e. st_Error ?done = Some e \<longrightarrow> Message e = []" by simp
  have m5: "ToLower (st_Status ?done)
              \<in> set [''succeeded'', ''completed'', ''complete'', ''done'', ''ready'']"
    using low by simp
  note c5 = polling_turn[where f = plainFlags and s = plainSettings and jobID = "''video_9''"
            and w = calmWorld and rest = "[CtxDone]" and code = 200 and raw = "[]"
            and st = ?done, OF refl refl,
            THEN conjunct2, THEN conjunct2, THEN conjunct2, THEN mp, OF u,
            THEN conjunct2, THEN conjunct2, THEN mp, OF k200,
            THEN conjunct2, THEN conjunct2, THEN mp, OF q5,
            THEN conjunct1, THEN mp, OF m5, THEN conjunct2, THEN mp, OF uc]
  have q6: "\<forall>e. st_Error ?failed = Some e \<longrightarrow> Message e = []" by simp
  have m6: "ToLower (st_Status ?failed) \<in> set [''failed'', ''error'']"
    using low by simp
  note t6 = polling_turn[where f = plainFlags and s = plainSettings and jobID = "''video_9''"
            and w = calmWorld and rest = "[CtxDone]" and code = 200 and raw = "[]"
            and st = ?failed, OF refl refl,
            THEN conjunct2, THEN conjunct2, THEN conjunct2, THEN mp, OF u,
            THEN conjunct2, THEN conjunct2, THEN mp, OF k200,
            THEN conjunct2, THEN conjunct2, THEN mp, OF q6,
            THEN conjunct2, THEN conjunct1, THEN mp, OF m6]
  have c6: "fst (?job [Timer (Reply 200 [] (Some ?failed)), CtxDone]) = Exit 1"
    by (simp add: t6[THEN conjunct1])
  note c7 = t6[THEN conjunct2, THEN conjunct1]
  note c8 = t6[THEN conjunct2, THEN conjunct2]
  have q9: "\<forall>e. st_Error ?queued = Some e \<longrightarrow> Message e = []" by simp
  have m9: "isASCII (st_Status ?queued)
            \<and> ToLower (st_Status ?queued)
                \<notin> set [''succeeded'', ''completed'', ''complete'', ''done'', ''ready'',
                        ''failed'', ''error'']"
    using low by simp
  note c9 = polling_turn[where f = plainFlags and s = plainSettings and jobID = "''video_9''"
            and w = calmWorld and rest = "[CtxDone]" and code = 200 and raw = "[]"
            and st = ?queued, OF refl refl,
            THEN conjunct2, THEN conjunct2, THEN conjunct2, THEN mp, OF u,
            THEN conjunct2, THEN conjunct2, THEN mp, OF k200,
            THEN conjunct2, THEN conjunct2, THEN mp, OF q9,
            THEN conjunct2, THEN conjunct2, THEN mp, OF m9]
  show ?thesis
    unfolding statusOf_def moderationReply_def
    by (intro conjI) (rule ub c0 u c1 c2 c3 c9 c4 low c5 c6 c7 c8)+
qed

theorem empty_error_field_counterexample:
  "map st_Error [emptyErrorStatus] = [Some \<lparr>Message = [], Type = ''server_error''\<rparr>]
   \<and> fst (main plainFlags
            (calmWorld\<lparr>pollScript := [Timer (Reply 200 [] (Some emptyErrorStatus)),
                                      Timer (statusOf ''succeeded'' 100)]\<rparr>)) = Returned
   \<and> map isStatusRequest
       (calls (snd (main plainFlags
            (calmWorld\<lparr>pollScript := [Timer (Reply 200 [] (Some emptyErrorStatus)),
                                      Timer (statusOf ''succeeded'' 100)]\<rparr>))))
       = [False, True, True, False, False]
   \<and> downloads (snd (main plainFlags
            (calmWorld\<lparr>pollScript := [Timer (Reply 200 [] (Some emptyErrorStatus)),
                                      Timer (statusOf ''succeeded'' 100)]\<rparr>))) = 1"
  by code_simp

text \<open>The two runs the specification describes: queued, running, succeeded gives one
  download after the three status requests and one history entry; a status that turns
  to failed at the second poll gives no download and no write of the history file.\<close>

lemma polling_runs:
  "fst (main (plainFlags\<lparr>outputFlag := ''kite.mp4''\<rparr>)
          (calmWorld\<lparr>pollScript := [Timer (statusOf ''queued'' 0), Timer (statusOf ''running'' 45),
                                    Timer (statusOf ''succeeded'' 100)]\<rparr>)) = Returned
   \<and> map isDownload
       (calls (snd (main (plainFlags\<lparr>outputFlag := ''kite.mp4''\<rparr>)
          (calmWorld\<lparr>pollScript := [Timer (statusOf ''queued'' 0), Timer (statusOf ''running'' 45),
                                    Timer (statusOf ''succeeded'' 100)]\<rparr>))))
       = [False, False, False, False, True, False]
   \<and> map OutputFile
       (stored (snd (main (plainFlags\<lparr>outputFlag := ''kite.mp4''\<rparr>)
          (calmWorld\<lparr>pollScript := [Timer (statusOf ''queued'' 0), Timer (statusOf ''running'' 45),
                                    Timer (statusOf ''succeeded'' 100)]\<rparr>)))) = [''kite.mp4'']
   \<and> fst (main plainFlags
          (calmWorld\<lparr>pollScript := [Timer (statusOf ''queued'' 0),
                                    Timer (statusOf ''failed'' 0)]\<rparr>)) = Exit 1
   \<and> map isStatusRequest
       (calls (snd (main plainFlags
          (calmWorld\<lparr>pollScript := [Timer (statusOf ''queued'' 0),
                                    Timer (statusOf ''failed'' 0)]\<rparr>)))) = [False, True, True]
   \<and> stored (snd (main plainFlags
          (calmWorld\<lparr>pollScript := [Timer (statusOf ''queued'' 0),
                                    Timer (statusOf ''failed'' 0)]\<rparr>))) = []"
  by code_simp

subsection \<open>Error objects with an empty message\<close>

text \<open>
  Claim C10. An error object whose message is empty counts as no error object: the
  polling loop takes the same turn as for the response without the object (so it keeps
  polling on a status that is not terminal), and \<open>createVideoJob\<close> gives the same
  result as for the response without the object (so a 2xx response with a job id
  yields that id). An error object whose message is not empty ends the polling with
  exit code 1 and makes \<open>createVideoJob\<close> fail with that message.
\<close>

theorem empty_error_message_is_no_error:
  "(Message e = [] \<longrightarrow>
      pollLoop b k j (Timer (Reply code raw (Some (st\<lparr>st_Error := Some e\<rparr>))) # rest) w
        = pollLoop b k j (Timer (Reply code raw (Some (st\<lparr>st_Error := None\<rparr>))) # rest) w
    \<and> (200 \<le> code \<and> code < 300
        \<and> \<not> urlInvalid w (TrimRightSlash b @ ''/videos/'' @ j)
        \<and> isASCII (st_Status st)
        \<and> ToLower (st_Status st)
            \<notin> set [''succeeded'', ''completed'', ''complete'', ''done'', ''ready'',
                    ''failed'', ''error''] \<longrightarrow>
         pollLoop b k j (Timer (Reply code raw (Some (st\<lparr>st_Error := Some e\<rparr>))) # rest) w
           = pollLoop b k j rest
               (updateBar st (record_call (GetStatus (TrimRightSlash b @ ''/videos/'' @ j)) w)))
    \<and> fst (createVideoJob (w\<lparr>createReply := Reply code raw (Some (out\<lparr>resp_Error := Some e\<rparr>))\<rparr>)
             b k m p i r sz sec)
        = fst (createVideoJob (w\<lparr>createReply := Reply code raw (Some (out\<lparr>resp_Error := None\<rparr>))\<rparr>)
                 b k m p i r sz sec)
    \<and> (200 \<le> code \<and> code < 300 \<and> resp_ID out \<noteq> []
        \<and> \<not> urlInvalid w (TrimRightSlash b @ ''/videos'') \<longrightarrow>
         fst (createVideoJob
                (w\<lparr>createReply := Reply code raw (Some (out\<lparr>resp_Error := Some e\<rparr>))\<rparr>)
                b k m p i r sz sec) = Inr (resp_ID out)))
   \<and> (Message e \<noteq> [] \<and> 200 \<le> code \<and> code < 300 \<longrightarrow>
        (\<not> urlInvalid w (TrimRightSlash b @ ''/videos/'' @ j) \<longrightarrow>
           pollLoop b k j (Timer (Reply code raw (Some (st\<lparr>st_Error := Some e\<rparr>))) # rest) w
             = (Inl (Exit 1),
                say (MsgJobError (Message e))
                  (record_call (GetStatus (TrimRightSlash b @ ''/videos/'' @ j)) w)))
      \<and> (\<not> urlInvalid w (TrimRightSlash b @ ''/videos'') \<longrightarrow>
           fst (createVideoJob
                  (w\<lparr>createReply := Reply code raw (Some (out\<lparr>resp_Error := Some e\<rparr>))\<rparr>)
                  b k m p i r sz sec) = Inl (ErrMessage (Message e))))"
proof -
  have bar: "\<And>x v. updateBar (st\<lparr>st_Error := x\<rparr>) v = updateBar st v"
    by (simp add: updateBar_def)
  have same_turn: "Message e = [] \<Longrightarrow>
      pollLoop b k j (Timer (Reply code raw (Some (st\<lparr>st_Error := Some e\<rparr>))) # rest) w
        = pollLoop b k j (Timer (Reply code raw (Some (st\<lparr>st_Error := None\<rparr>))) # rest) w"
    by (simp add: fetchVideoStatus_def Let_def bar)
  have keeps: "Message e = [] \<Longrightarrow> 200 \<le> code \<and> code < 300 \<Longrightarrow>
      \<not> urlInvalid w (TrimRightSlash b @ ''/videos/'' @ j) \<Longrightarrow>
      ToLower (st_Status st)
        \<notin> set [''succeeded'', ''completed'', ''complete'', ''done'', ''ready'', ''failed'', ''error'']
      \<Longrightarrow> pollLoop b k j (Timer (Reply code raw (Some (st\<lparr>st_Error := Some e\<rparr>))) # rest) w
            = pollLoop b k j rest
                (updateBar st (record_call (GetStatus (TrimRightSlash b @ ''/videos/'' @ j)) w))"
    by (simp add: fetchVideoStatus_def Let_def bar)
  have same_create: "Message e = [] \<Longrightarrow>
      fst (createVideoJob (w\<lparr>createReply := Reply code raw (Some (out\<lparr>resp_Error := Some e\<rparr>))\<rparr>)
             b k m p i r sz sec)
        = fst (createVideoJob (w\<lparr>createReply := Reply code raw (Some (out\<lparr>resp_Error := None\<rparr>))\<rparr>)
                 b k m p i r sz sec)"
    by (simp add: createVideoJob_def Let_def)
  have accepted: "Message e = [] \<Longrightarrow> 200 \<le> code \<and> code < 300 \<Longrightarrow> resp_ID out \<noteq> [] \<Longrightarrow>
      \<not> urlInvalid w (TrimRightSlash b @ ''/videos'') \<Longrightarrow>
      fst (createVideoJob (w\<lparr>createReply := Reply code raw (Some (out\<lparr>resp_Error := Some e\<rparr>))\<rparr>)
             b k m p i r sz sec) = Inr (resp_ID out)"
    by (simp add: createVideoJob_def Let_def)
  have fatal_poll: "Message e \<noteq> [] \<Longrightarrow> 200 \<le> code \<and> code < 300 \<Longrightarrow>
      \<not> urlInvalid w (TrimRightSlash b @ ''/videos/'' @ j) \<Longrightarrow>
      pollLoop b k j (Timer (Reply code raw (Some (st\<lparr>st_Error := Some e\<rparr>))) # rest) w
        = (Inl (Exit 1),
           say (MsgJobError (Message e))
             (record_call (GetStatus (TrimRightSlash b @ ''/videos/'' @ j)) w))"
    by (simp add: fetchVideoStatus_def Let_def)
  have fatal_create: "Message e \<noteq> [] \<Longrightarrow> 200 \<le> code \<and> code < 300 \<Longrightarrow>
      \<not> urlInvalid w (TrimRightSlash b @ ''/videos'') \<Longrightarrow>
      fst (createVideoJob (w\<lparr>createReply := Reply code raw (Some (out\<lparr>resp_Error := Some e\<rparr>))\<rparr>)
             b k m p i r sz sec) = Inl (ErrMessage (Message e))"
    by (simp add: createVideoJob_def Let_def)
  show ?thesis
    using same_turn keeps same_create accepted fatal_poll fatal_create by blast
qed

theorem empty_error_message_is_no_error_witness:
  "Message \<lparr>Message = [], Type = ''server_error''\<rparr> = []
   \<and> pollLoop (baseURL plainFlags) ''sk-test'' ''video_9''
        [Timer (Reply 200 []
           (Some (emptyErrorStatus\<lparr>st_Error := Some \<lparr>Message = [], Type = ''server_error''\<rparr>\<rparr>))),
         CtxDone] calmWorld
     = pollLoop (baseURL plainFlags) ''sk-test'' ''video_9''
        [Timer (Reply 200 [] (Some (emptyErrorStatus\<lparr>st_Error := None\<rparr>))), CtxDone] calmWorld
   \<and> pollLoop (baseURL plainFlags) ''sk-test'' ''video_9''
        [Timer (Reply 200 []
           (Some (emptyErrorStatus\<lparr>st_Error := Some \<lparr>Message = [], Type = ''server_error''\<rparr>\<rparr>))),
         CtxDone] calmWorld
     = pollLoop (baseURL plainFlags) ''sk-test'' ''video_9'' [CtxDone]
         (updateBar emptyErrorStatus
            (record_call (GetStatus (TrimRightSlash (baseURL plainFlags) @ ''/videos/'' @ ''video_9''))
               calmWorld))
   \<and> fst (createVideoJob
            (calmWorld\<lparr>createReply := Reply 200 []
               (Some (\<lparr>resp_ID = ''video_9'', resp_Status = ''queued'', resp_Error = None\<rparr>
                        \<lparr>resp_Error := Some \<lparr>Message = [], Type = ''server_error''\<rparr>\<rparr>))\<rparr>)
            (baseURL plainFlags) ''sk-test'' ''sora-2'' ''a red kite'' None None
            (Some ''1280x720'') (Some ''12''))
     = Inr ''video_9''
   \<and> Message \<lparr>Message = ''quota'', Type = ''server_error''\<rparr> \<noteq> []
   \<and> pollLoop (baseURL plainFlags) ''sk-test'' ''video_9''
        [Timer (Reply 200 []
           (Some (emptyErrorStatus\<lparr>st_Error := Some \<lparr>Message = ''quota'', Type = ''server_error''\<rparr>\<rparr>))),
         CtxDone] calmWorld
     = (Inl (Exit 1),
        say (MsgJobError ''quota'')
          (record_call (GetStatus (TrimRightSlash (baseURL plainFlags) @ ''/videos/'' @ ''video_9''))
             calmWorld))
   \<and> fst (createVideoJob
            (calmWorld\<lparr>createReply := Reply 200 []
               (Some (\<lparr>resp_ID = ''video_9'', resp_Status = ''queued'', resp_Error = None\<rparr>
                        \<lparr>resp_Error := Some \<lparr>Message = ''quota'', Type = ''server_error''\<rparr>\<rparr>))\<rparr>)
            (baseURL plainFlags) ''sk-test'' ''sora-2'' ''a red kite'' None None
            (Some ''1280x720'') (Some ''12''))
     = Inl (ErrMessage ''quota'')"
proof -
  let ?e0 = "\<lparr>Message = [], Type = ''server_error''\<rparr>"
  let ?e1 = "\<lparr>Message = ''quota'', Type = ''server_error''\<rparr>"
  let ?out = "\<lparr>resp_ID = ''video_9'', resp_Status = ''queued'', resp_Error = None\<rparr>"
  have m0: "Message ?e0 = []" by simp
  have m1: "Message ?e1 \<noteq> [] \<and> (200::nat) \<le> 200 \<and> (200::nat) < 300" by simp
  have us: "\<not> urlInvalid calmWorld (TrimRightSlash (baseURL plainFlags) @ ''/videos/'' @ ''video_9'')"
    by (simp add: calmWorld_def)
  have uc: "\<not> urlInvalid calmWorld (TrimRightSlash (baseURL plainFlags) @ ''/videos'')"
    by (simp add: calmWorld_def)
  have low: "isASCII (st_Status emptyErrorStatus)"
    "ToLower (st_Status emptyErrorStatus)
       \<notin> set [''succeeded'', ''completed'', ''complete'', ''done'', ''ready'', ''failed'', ''error'']"
    by code_simp+
  have k: "(200::nat) \<le> 200 \<and> (200::nat) < 300
           \<and> \<not> urlInvalid calmWorld (TrimRightSlash (baseURL plainFlags) @ ''/videos/'' @ ''video_9'')
           \<and> isASCII (st_Status emptyErrorStatus)
           \<and> ToLower (st_Status emptyErrorStatus)
               \<notin> set [''succeeded'', ''completed'', ''complete'', ''done'', ''ready'',
                       ''failed'', ''error'']"
    using us low by simp
  have a: "(200::nat) \<le> 200 \<and> (200::nat) < 300 \<and> resp_ID ?out \<noteq> []
           \<and> \<not> urlInvalid calmWorld (TrimRightSlash (baseURL plainFlags) @ ''/videos'')"
    using uc by simp
  note t0 = empty_error_message_is_no_error
    [where e = ?e0 and b = "baseURL plainFlags" and k = "''sk-test''" and j = "''video_9''"
       and code = 200 and raw = "[]" and st = emptyErrorStatus and rest = "[CtxDone]"
       and w = calmWorld and out = ?out and m = "''sora-2''" and p = "''a red kite''"
       and i = None and r = None and sz = "Some ''1280x720''" and sec = "Some ''12''"]
  note t1 = empty_error_message_is_no_error
    [where e = ?e1 and b = "baseURL plainFlags" and k = "''sk-test''" and j = "''video_9''"
       and code = 200 and raw = "[]" and st = emptyErrorStatus and rest = "[CtxDone]"
       and w = calmWorld and out = ?out and m = "''sora-2''" and p = "''a red kite''"
       and i = None and r = None and sz = "Some ''1280x720''" and sec = "Some ''12''"]
  note empty = t0[THEN conjunct1, THEN mp, OF m0]
  note nonempty = t1[THEN conjunct2, THEN mp, OF m1]
  have g1: "resp_ID ?out = ''video_9''" by simp
  have g2: "Message ?e1 = ''quota''" by simp
  note r1 = empty[THEN conjunct1]
  note r2 = empty[THEN conjunct2, THEN conjunct1, THEN mp, OF k]
  note r3 = empty[THEN conjunct2, THEN conjunct2, THEN conjunct2, THEN mp, OF a]
  note r4 = nonempty[THEN conjunct1, THEN mp, OF us]
  note r5 = nonempty[THEN conjunct2, THEN mp, OF uc]
  show ?thesis
    using m0 m1 r1 r2 r3 r4 r5 by (simp only: g1 g2 simp_thms)
qed

subsection \<open>The submission of a remix\<close>

lemma main_checks_settings:
  assumes "main_checks f w = (Inr s, w1)"
  shows "s_model s = (if usePro f then ''sora-2-pro'' else model f)
       \<and> s_videoSize s = (if portrait f then ''720x1280'' else ''1280x720'')
       \<and> seconds f \<noteq> []"
proof -
  have sec: "seconds f = ''4'' \<or> seconds f = ''8'' \<or> seconds f = ''12''"
    using assms by (auto simp: main_checks_def split: if_splits)
  have "s_model s = (if usePro f then ''sora-2-pro'' else model f)
       \<and> s_videoSize s = (if portrait f then ''720x1280'' else ''1280x720'')"
    using assms
    by (auto simp: main_checks_def Let_def promptInteractive_def
             split: if_splits sum.splits option.splits)
  with sec show ?thesis by auto
qed













subsection \<open>The image input\<close>

lemma byte_below_256: "(of_char c :: nat) < 256"
proof -
  have "(of_char c :: nat) mod 256 = of_char c" by simp
  then show ?thesis by (metis mod_less_divisor zero_less_numeral)
qed

lemma b64index_b64char: "i < 64 \<Longrightarrow> b64index (b64char i) = Some i"
  by (auto simp: b64index_def b64char_def Let_def)

lemma b64index_pad: "b64index CHR ''='' = None"
  by (simp add: b64index_def)

lemma b64char_not_pad: "i < 64 \<Longrightarrow> b64char i \<noteq> CHR ''=''"
  using b64index_b64char[of i] b64index_pad by auto

lemma pack_div: "b < n \<Longrightarrow> (a * n + b) div n = (a::nat)"
  by simp

lemma pack_mod: "b < n \<Longrightarrow> (a * n + b) mod n = (b::nat)"
  by simp

lemma pack_bound:
  assumes "a < m" and "b < n"
  shows "a * n + b < m * (n::nat)"
proof -
  have "a * n + b < a * n + n" using assms(2) by simp
  also have "\<dots> = Suc a * n" by simp
  also have "\<dots> \<le> m * n" using assms(1) by (intro mult_le_mono1) simp
  finally show ?thesis .
qed

lemma sextets:
  fixes x y z :: nat
  assumes "x < 256" "y < 256" "z < 256"
  shows "x div 4 < 64" "(x mod 4) * 16 + y div 16 < 64" "(y mod 16) * 4 + z div 64 < 64"
    "z mod 64 < 64" "(x mod 4) * 16 < 64" "(y mod 16) * 4 < 64"
proof -
  have d: "x div 4 < 64" "y div 16 < 16" "z div 64 < 4"
    using assms by (simp_all add: less_mult_imp_div_less)
  have m: "x mod 4 < 4" "y mod 16 < 16" by simp_all
  show "x div 4 < 64" by (rule d)
  show "(x mod 4) * 16 + y div 16 < 64" using pack_bound[OF m(1) d(2)] by simp
  show "(y mod 16) * 4 + z div 64 < 64" using pack_bound[OF m(2) d(3)] by simp
  show "z mod 64 < 64" by simp
  show "(x mod 4) * 16 < 64" using pack_bound[OF m(1), of 0 16] by simp
  show "(y mod 16) * 4 < 64" using pack_bound[OF m(2), of 0 4] by simp
qed

lemma octets:
  fixes x y z :: nat
  assumes "x < 256" "y < 256" "z < 256"
  shows "x div 4 * 4 + ((x mod 4) * 16 + y div 16) div 16 = x"
    "((x mod 4) * 16 + y div 16) mod 16 * 16 + ((y mod 16) * 4 + z div 64) div 4 = y"
    "((y mod 16) * 4 + z div 64) mod 4 * 64 + z mod 64 = z"
    "x div 4 * 4 + ((x mod 4) * 16) div 16 = x"
    "((x mod 4) * 16 + y div 16) mod 16 * 16 + ((y mod 16) * 4) div 4 = y"
proof -
  have d: "y div 16 < 16" "z div 64 < 4"
    using assms by (simp_all add: less_mult_imp_div_less)
  show "x div 4 * 4 + ((x mod 4) * 16 + y div 16) div 16 = x"
    by (simp only: pack_div[OF d(1)] div_mult_mod_eq)
  show "((x mod 4) * 16 + y div 16) mod 16 * 16 + ((y mod 16) * 4 + z div 64) div 4 = y"
    by (simp only: pack_mod[OF d(1)] pack_div[OF d(2)] div_mult_mod_eq)
  show "((y mod 16) * 4 + z div 64) mod 4 * 64 + z mod 64 = z"
    by (simp only: pack_mod[OF d(2)] div_mult_mod_eq)
  show "x div 4 * 4 + ((x mod 4) * 16) div 16 = x"
    by simp
  show "((x mod 4) * 16 + y div 16) mod 16 * 16 + ((y mod 16) * 4) div 4 = y"
    using d(1) by simp
qed

lemma decode_group:
  assumes "i < 64" "j < 64" "k < 64" "l < 64"
  shows "DecodeString (b64char i # b64char j # b64char k # b64char l # others)
           = (case DecodeString others of
                Some bytes \<Rightarrow>
                  Some (char_of (i * 4 + j div 16) # char_of ((j mod 16) * 16 + k div 4)
                        # char_of ((k mod 4) * 64 + l) # bytes)
              | None \<Rightarrow> None)"
  using assms by (simp add: b64index_b64char b64char_not_pad)

lemma decode_last_two:
  assumes "i < 64" "j < 64" "k < 64"
  shows "DecodeString [b64char i, b64char j, b64char k, CHR ''='']
           = Some [char_of (i * 4 + j div 16), char_of ((j mod 16) * 16 + k div 4)]"
  using assms by (simp add: b64index_b64char b64char_not_pad)

lemma decode_last_one:
  assumes "i < 64" "j < 64"
  shows "DecodeString [b64char i, b64char j, CHR ''='', CHR ''='']
           = Some [char_of (i * 4 + j div 16)]"
  using assms by (simp add: b64index_b64char)

lemma DecodeString_EncodeToString: "DecodeString (EncodeToString data) = Some data"
proof (induction data rule: EncodeToString.induct)
  case 1
  show ?case by simp
next
  case (2 a)
  note x = byte_below_256[of a]
  note s = sextets[OF x x x] and o = octets[OF x x x]
  have "DecodeString (EncodeToString [a])
          = Some [char_of (of_char a div 4 * 4 + ((of_char a mod 4) * 16) div 16 :: nat)]"
    by (simp only: EncodeToString.simps decode_last_one[OF s(1) s(5)])
  then show ?case by (simp only: o(4) char_of_char)
next
  case (3 a b)
  note x = byte_below_256[of a] and y = byte_below_256[of b]
  note s = sextets[OF x y y] and o = octets[OF x y y]
  have "DecodeString (EncodeToString [a, b])
          = Some [char_of (of_char a div 4 * 4 + ((of_char a mod 4) * 16 + of_char b div 16) div 16 :: nat),
                  char_of (((of_char a mod 4) * 16 + of_char b div 16) mod 16 * 16
                           + ((of_char b mod 16) * 4) div 4 :: nat)]"
    by (simp only: EncodeToString.simps decode_last_two[OF s(1) s(2) s(6)])
  then show ?case by (simp only: o(1) o(5) char_of_char)
next
  case (4 a b c rest)
  note x = byte_below_256[of a] and y = byte_below_256[of b] and z = byte_below_256[of c]
  note s = sextets[OF x y z] and o = octets[OF x y z]
  have "DecodeString (EncodeToString (a # b # c # rest))
          = Some (char_of (of_char a div 4 * 4 + ((of_char a mod 4) * 16 + of_char b div 16) div 16 :: nat)
                  # char_of (((of_char a mod 4) * 16 + of_char b div 16) mod 16 * 16
                             + ((of_char b mod 16) * 4 + of_char c div 64) div 4 :: nat)
                  # char_of (((of_char b mod 16) * 4 + of_char c div 64) mod 4 * 64
                             + of_char c mod 64 :: nat)
                  # rest)"
    by (simp only: EncodeToString.simps append_Cons append_Nil
          decode_group[OF s(1) s(2) s(3) s(4)] 4 option.case)
  then show ?case by (simp only: o(1) o(2) o(3) char_of_char)
qed

lemma mimeTypeOf_values:
  "mimeTypeOf ext \<noteq> [] \<Longrightarrow>
     mimeTypeOf ext = ''image/jpeg'' \<or> mimeTypeOf ext = ''image/png''
     \<or> mimeTypeOf ext = ''image/gif'' \<or> mimeTypeOf ext = ''image/webp''"
  by (simp add: mimeTypeOf_def split: if_splits)

lemma dataURIPayload_encoded:
  assumes "mimeTypeOf ext \<noteq> []"
  shows "dataURIPayload (''data:'' @ mimeTypeOf ext @ '';base64,'' @ EncodeToString data) = Some data"
  using mimeTypeOf_values[OF assms]
  by (auto simp: dataURIPayload_def DecodeString_EncodeToString)

text \<open>
  Claim C3, as amended. The media step does no scaling and no cropping, and it is not
  given the target geometry: for a file whose extension names a supported image type,
  the output is the data URI of that type whose payload is the base64 text of the
  file's bytes, so the picture it carries is the file's picture, byte for byte, with
  the file's own pixel dimensions.
\<close>

theorem encodeImageToDataURI_keeps_bytes:
  assumes "files w filePath = Some data"
    and "mimeTypeOf (ToLower (filepath_Ext filePath)) \<noteq> []"
  shows "encodeImageToDataURI w filePath
           = Inr (''data:'' @ mimeTypeOf (ToLower (filepath_Ext filePath)) @ '';base64,''
                  @ EncodeToString data)
       \<and> dataURIPayload (''data:'' @ mimeTypeOf (ToLower (filepath_Ext filePath)) @ '';base64,''
                           @ EncodeToString data) = Some data"
  using assms dataURIPayload_encoded[OF assms(2)]
  by (simp add: encodeImageToDataURI_def Let_def)

theorem encodeImageToDataURI_keeps_bytes_witness:
  "files photoWorld ''photo.png'' = Some tinyPNG
   \<and> mimeTypeOf (ToLower (filepath_Ext ''photo.png'')) = ''image/png''
   \<and> encodeImageToDataURI photoWorld ''photo.png''
       = Inr (''data:'' @ ''image/png'' @ '';base64,'' @ EncodeToString tinyPNG)
   \<and> dataURIPayload (''data:'' @ ''image/png'' @ '';base64,'' @ EncodeToString tinyPNG)
       = Some tinyPNG"
proof -
  have f: "files photoWorld ''photo.png'' = Some tinyPNG" by code_simp
  have m: "mimeTypeOf (ToLower (filepath_Ext ''photo.png'')) = ''image/png''" by code_simp
  have n: "mimeTypeOf (ToLower (filepath_Ext ''photo.png'')) \<noteq> []" by (simp add: m)
  show ?thesis
    using f m encodeImageToDataURI_keeps_bytes[OF f n] by (simp only: m simp_thms)
qed

theorem photo_keeps_its_size_counterexample:
  "pngSize tinyPNG = Some (1, 1)
   \<and> fst (main (plainFlags\<lparr>imageFile := ''photo.png''\<rparr>) photoWorld) = Returned
   \<and> calls (snd (main (plainFlags\<lparr>imageFile := ''photo.png''\<rparr>) photoWorld)) ! 0
       = PostVideos ''https://api.openai.com/v1/videos''
           \<lparr>req_Model = ''sora-2'', req_Prompt = ''a red kite'',
            req_Image = Some (''data:image/png;base64,'' @
              ''iVBORw0KGgoAAAANSUhEUgAAAAEAAAABCAYAAAAfFcSJAAAADUlEQVR42mNkYPhfDwAChwGA'' @
              ''60e6kgAAAABJRU5ErkJggg==''),
            req_RemixFromVideoID = None, req_Size = Some ''1280x720'',
            req_Seconds = Some ''12''\<rparr>
   \<and> map_option pngSize
       (dataURIPayload (''data:image/png;base64,'' @
          ''iVBORw0KGgoAAAANSUhEUgAAAAEAAAABCAYAAAAfFcSJAAAADUlEQVR42mNkYPhfDwAChwGA'' @
          ''60e6kgAAAABJRU5ErkJggg=='')) = Some (Some (1, 1))
   \<and> (1::nat, 1::nat) \<noteq> (1280, 720)"
  by code_simp

subsection \<open>Bounds on a whole run\<close>

text \<open>Whatever the script, the polling loop itself downloads nothing and writes no
  history, so a run makes at most one download request and at most one write of the
  history file, and none at all unless the loop has handed over a download URL.\<close>

lemma pollLoop_counters:
  "pollLoop b k j script w = (x, w')
     \<Longrightarrow> downloads w' = downloads w \<and> historyWrites w' = historyWrites w"
proof (induction script arbitrary: w x w')
  case Nil
  then show ?case by simp
next
  case (Cons t rest)
  show ?case
  proof (cases t)
    case CtxDone
    with Cons.prems show ?thesis by auto
  next
    case (Timer reply)
    obtain r w1 where f: "fetchVideoStatus w b k j reply = (r, w1)"
      by (cases "fetchVideoStatus w b k j reply") auto
    note c = fetchVideoStatus_counters[OF f]
    show ?thesis
    proof (cases r)
      case (Inl e)
      with Cons.prems Timer f
      have "pollLoop b k j rest (say (MsgPollError e) w1) = (x, w')" by simp
      from Cons.IH[OF this] c show ?thesis by simp
    next
      case (Inr st)
      show ?thesis
      proof (cases "case st_Error st of None \<Rightarrow> None
                    | Some e \<Rightarrow> if Message e \<noteq> [] then Some (Message e) else None")
        case (Some m)
        with Cons.prems Timer f Inr c show ?thesis by auto
      next
        case None
        show ?thesis
        proof (cases "ToLower (st_Status st)
                        \<in> set [''succeeded'', ''completed'', ''complete'', ''done'', ''ready'']")
          case True
          with Cons.prems Timer f Inr None c show ?thesis by (auto simp: Let_def)
        next
          case notdone: False
          show ?thesis
          proof (cases "ToLower (st_Status st) \<in> set [''failed'', ''error'']")
            case True
            with Cons.prems Timer f Inr None notdone c show ?thesis by (auto simp: Let_def)
          next
            case False
            with Cons.prems Timer f Inr None notdone
            have "pollLoop b k j rest (updateBar st w1) = (x, w')" by (simp add: Let_def)
            from Cons.IH[OF this] c show ?thesis by simp
          qed
        qed
      qed
    qed
  qed
qed

lemma saveHistory_writes:
  "saveHistory w h = (r, w') \<Longrightarrow> historyWrites w' \<le> historyWrites w + 1"
  by (auto simp: saveHistory_def historyWrites_def Let_def
           split: option.splits if_splits writeOutcome.splits)

lemma addToHistory_writes:
  "addToHistory w entry = (r, w') \<Longrightarrow> historyWrites w' \<le> historyWrites w + 1"
  by (auto simp: addToHistory_def Let_def dest: saveHistory_writes split: sum.splits if_splits)

lemma downloadFile_counters:
  "downloadFile w k u p = (r, w')
     \<Longrightarrow> downloads w' \<le> downloads w + 1 \<and> historyWrites w' = historyWrites w"
  using downloadFile_calls[of w k u p r w']
  by (simp add: downloads_def historyWrites_def)

lemma main_finish_counters:
  "downloads (snd (main_finish f s j u w)) \<le> downloads w + 1
   \<and> historyWrites (snd (main_finish f s j u w)) \<le> historyWrites w + 1"
proof -
  let ?out = "main_output (outputFlag f) (useRemote f) j"
  obtain r w1 where d: "downloadFile w (s_apiKey s) u ?out = (r, w1)"
    by (cases "downloadFile w (s_apiKey s) u ?out") auto
  note c = downloadFile_counters[OF d]
  show ?thesis
  proof (cases r)
    case (Some e)
    with d c show ?thesis by (simp add: main_finish_def Let_def)
  next
    case None
    let ?w2 = "if ?out \<noteq> ''-'' then say (MsgSaved ?out) w1 else w1"
    let ?entry = "\<lparr>ID = j, Prompt = s_prompt s, CreatedAt = now ?w2, OutputFile = ?out,
                    Model = s_model s,
                    ImageInput = (if imageFile f = [] then None else Some (imageFile f)),
                    RemixedFrom = (if remixFrom f \<noteq> [] then Some (remixFrom f) else None)\<rparr>"
    obtain r3 w3 where a: "addToHistory ?w2 ?entry = (r3, w3)"
      by (cases "addToHistory ?w2 ?entry") auto
    have "downloads w3 = downloads w1" "historyWrites w3 \<le> historyWrites w1 + 1"
      using addToHistory_calls[OF a] addToHistory_writes[OF a] by (simp_all split: if_splits)
    moreover have "snd (main_finish f s j u w)
                     = (case r3 of Some e \<Rightarrow> say (MsgHistoryWarning e) w3 | None \<Rightarrow> w3)"
      using d None a by (simp add: main_finish_def Let_def split: option.splits)
    ultimately show ?thesis using c by (simp split: option.splits)
  qed
qed

lemma main_job_counters:
  "downloads (snd (main_job f s j script w)) \<le> downloads w + 1
   \<and> historyWrites (snd (main_job f s j script w)) \<le> historyWrites w + 1"
proof -
  obtain x w1 where p: "pollLoop (baseURL f) (s_apiKey s) j script w = (x, w1)"
    by (cases "pollLoop (baseURL f) (s_apiKey s) j script w") auto
  note c = pollLoop_counters[OF p]
  show ?thesis
  proof (cases x)
    case (Inl out)
    with p c show ?thesis by (simp add: main_job_def)
  next
    case (Inr url)
    with p c main_finish_counters[of f s j url w1] show ?thesis by (simp add: main_job_def)
  qed
qed

text \<open>Once the body has been copied to the temporary file, a failure of \<open>f.Sync\<close>,
  \<open>f.Close\<close> or \<open>os.Rename\<close> makes \<open>downloadFile\<close> return its error with the temporary
  file still in place.\<close>

lemma downloadFile_late_error_keeps_part:
  assumes "outPath \<noteq> ''-''" and "\<not> urlInvalid w url"
    and "contentReply w = Reply code body d" and "200 \<le> code \<and> code < 300"
    and "\<not> mkdirFails w" and "\<not> createFails w" and "copyResult w = CopyOk"
    and "syncFails w \<or> closeFails w \<or> renameFails w"
  shows "fst (downloadFile w apiKey url outPath) \<noteq> None
       \<and> files (snd (downloadFile w apiKey url outPath)) (outPath @ ''.part'') = Some body"
  using assms by (auto simp: downloadFile_def deferredCleanup_def Let_def)

end
